theory Spec2Isabelle
  imports Complex_Main
begin

section \<open>Data model\<close>

text \<open>
  Coordinates are pairs (latitude, longitude). Python floats are modelled as reals: the
  code only compares a distance with a constant and copies coordinates around.
  The cache is the Python dict of \<open>smart_geocode\<close>: a key that is absent is a miss, a key
  bound to \<open>None\<close> is a remembered failure, a key bound to a pair is a resolved address.
\<close>

type_synonym coord = "real \<times> real"

type_synonym cache = "string \<rightharpoonup> coord option"

text \<open>
  The exceptions that can leave the functions below. \<open>CountNotInt\<close> stands for both ways
  \<open>.astype(int)\<close> fails on the count column: ValueError for a text that is no integer,
  OverflowError for a Python number that does not fit 64 bits.
\<close>

datatype error =
    LookupRaised
  | CountNotInt
  | DateNotParsed
  | DateNotComparable
  | UnpicklingError
  | BadIsoDate
  | NoSuchFrame

text \<open>
  A DataFrame is a list of rows with the five columns the script names (\<open>COL_STREET\<close>,
  \<open>COL_HOUSE\<close>, \<open>COL_COUNT\<close>, \<open>COL_DATE\<close>, \<open>COL_CAT\<close>). A cell holds what
  its column can hold before or after \<open>prepare_dataframe\<close>: street, house and category
  are texts or missing (\<open>None\<close> stands for NaN); the date is missing (NaN before
  conversion, NaT after), a text, or a timestamp in nanoseconds since the epoch.

  The count column is an int64 column, a float64 column or an object column, and a cell
  of it is: missing; \<open>CountInt\<close>, an integer (a cell of an int64 column, or a Python int
  of an object column, which alone can lie outside 64 bits); \<open>CountFloat\<close>, a cell of a
  float64 column; \<open>CountPyFloat\<close>, a Python float of an object column; \<open>CountText\<close>, a
  text of an object column.
\<close>

datatype count_cell =
    CountNaN
  | CountInt int
  | CountFloat real
  | CountPyFloat real
  | CountText string

datatype date_cell = NaT | DateText string | DateTime int

record row =
  col_street :: "string option"
  col_house :: "string option"
  col_count :: count_cell
  col_date :: date_cell
  col_cat :: "string option"

text \<open>The frame of \<open>generate_map\<close> after the columns \<open>lat\<close> and \<open>lon\<close> are added.\<close>

record located_row = row +
  lat :: "real option"
  lon :: "real option"

type_synonym frame = "row list"

section \<open>Geocoding with a cache\<close>

text \<open>
  What one call of \<open>geocode_fn(address)\<close> can do: raise, return \<open>None\<close>, or return a
  location, of which the code reads \<open>latitude\<close> and \<open>longitude\<close>. In \<open>generate_map\<close> the
  function is the rate-limited wrapper of the geocoder; what the wrapper does with the
  service inside one call (waiting, trying again) is not part of the model.
\<close>

datatype lookup = Raises | Returns "coord option"

text \<open>
  The geocoder is an external service: it is a function of the state of the world \<open>'w\<close>
  (which it may change) and of the address. \<open>calls\<close> is a ghost log of the calls made,
  each with the cache key it was made for.
\<close>

record 'w run_state =
  cache :: cache
  world :: 'w
  calls :: "(string \<times> string) list"

definition CENTER :: coord where
  "CENTER = (558437 / 10000, 485066 / 10000)"

definition MAX_DIST_KM :: real where
  "MAX_DIST_KM = 10"

definition GEOCACHE_FILE :: string where
  "GEOCACHE_FILE = ''geocache.pkl''"

text \<open>\<open>key = f"{street}_{house}"\<close>\<close>

definition address_key :: "string \<Rightarrow> string \<Rightarrow> string" where
  "address_key street house = street @ ''_'' @ house"

text \<open>
  The key as the specification words it, to compare with: built from the street and the
  house trimmed of the spaces around them.
\<close>

definition trimmed :: "string \<Rightarrow> string" where
  "trimmed s =
     rev (dropWhile (\<lambda>c. c = CHR '' '') (rev (dropWhile (\<lambda>c. c = CHR '' '') s)))"

definition spec_address_key :: "string \<Rightarrow> string \<Rightarrow> string" where
  "spec_address_key street house = address_key (trimmed street) (trimmed house)"

text \<open>
  \<open>address = f"{street}, {house}, <city>, <republic>, <country>"\<close>. The three names are
  Cyrillic in the source and are transliterated here.
\<close>

definition address_of :: "string \<Rightarrow> string \<Rightarrow> string" where
  "address_of street house =
     street @ '', '' @ house @ '', Zelenodolsk, Respublika Tatarstan, Rossiya''"

text \<open>
  \<open>smart_geocode\<close>. \<open>geodesic_km a b\<close> stands for \<open>geodesic(a, b).km\<close> of geopy.
  The dict is mutated in place, so the state is returned in every case, also when the
  lookup raises and the exception leaves the function.
\<close>

definition smart_geocode ::
  "(coord \<Rightarrow> coord \<Rightarrow> real) \<Rightarrow> string \<Rightarrow> string \<Rightarrow> ('w \<Rightarrow> string \<Rightarrow> lookup \<times> 'w) \<Rightarrow>
   'w run_state \<Rightarrow> (error + coord option) \<times> 'w run_state" where
  "smart_geocode geodesic_km street house geocode_fn st =
     (let key = address_key street house in
      case cache st key of
        Some v \<Rightarrow> (Inr v, st)
      | None \<Rightarrow>
          (let address = address_of street house;
               (res, w') = geocode_fn (world st) address;
               st1 = st\<lparr>world := w', calls := calls st @ [(key, address)]\<rparr>
           in case res of
                Raises \<Rightarrow> (Inl LookupRaised, st1)
              | Returns loc \<Rightarrow>
                  (let v = (case loc of
                              None \<Rightarrow> None
                            | Some c \<Rightarrow>
                                if geodesic_km CENTER c \<le> MAX_DIST_KM then Some c else None);
                       st2 = st1\<lparr>cache := (cache st1)(key \<mapsto> v)\<rparr>
                   in (Inr v, st2))))"

text \<open>
  The text of a street or house cell as the f-strings of \<open>smart_geocode\<close> render it:
  a missing value prints as \<open>nan\<close>.
\<close>

definition str_of :: "string option \<Rightarrow> string" where
  "str_of c = (case c of None \<Rightarrow> ''nan'' | Some s \<Rightarrow> s)"

definition row_key :: "'a row_scheme \<Rightarrow> string" where
  "row_key r = address_key (str_of (col_street r)) (str_of (col_house r))"

text \<open>
  \<open>df.apply(lambda r: smart_geocode(r[COL_STREET], r[COL_HOUSE], geocode, cache), axis=1)\<close>:
  the rows in order, one shared cache; an exception ends the loop.
\<close>

fun geocode_rows ::
  "(coord \<Rightarrow> coord \<Rightarrow> real) \<Rightarrow> ('w \<Rightarrow> string \<Rightarrow> lookup \<times> 'w) \<Rightarrow> 'a row_scheme list \<Rightarrow>
   'w run_state \<Rightarrow> (error + coord option list) \<times> 'w run_state" where
  "geocode_rows geodesic_km geocode_fn [] st = (Inr [], st)"
| "geocode_rows geodesic_km geocode_fn (r # rs) st =
     (case smart_geocode geodesic_km (str_of (col_street r)) (str_of (col_house r)) geocode_fn st of
        (Inl e, st1) \<Rightarrow> (Inl e, st1)
      | (Inr c, st1) \<Rightarrow>
          (case geocode_rows geodesic_km geocode_fn rs st1 of
             (Inl e, st2) \<Rightarrow> (Inl e, st2)
           | (Inr cs, st2) \<Rightarrow> (Inr (c # cs), st2)))"

text \<open>The calls in the log that were made for key \<open>k\<close>.\<close>

definition calls_for :: "string \<Rightarrow> (string \<times> string) list \<Rightarrow> (string \<times> string) list" where
  "calls_for k cs = filter (\<lambda>c. fst c = k) cs"

text \<open>
  The addresses the plausibility check accepts, and the caches that hold no other
  resolved coordinate.
\<close>

definition in_region :: "(coord \<Rightarrow> coord \<Rightarrow> real) \<Rightarrow> coord \<Rightarrow> bool" where
  "in_region geodesic_km c = (geodesic_km CENTER c \<le> MAX_DIST_KM)"

definition cache_in_region :: "(coord \<Rightarrow> coord \<Rightarrow> real) \<Rightarrow> cache \<Rightarrow> bool" where
  "cache_in_region geodesic_km m = (\<forall>k c. m k = Some (Some c) \<longrightarrow> in_region geodesic_km c)"

text \<open>
  The caches the program can hold: the empty one it starts from when there is no cache
  file, and the one each batch leaves, which is the one the next run loads.
\<close>

inductive reachable_cache :: "(coord \<Rightarrow> coord \<Rightarrow> real) \<Rightarrow> cache \<Rightarrow> bool"
  for geodesic_km :: "coord \<Rightarrow> coord \<Rightarrow> real" where
  no_file: "reachable_cache geodesic_km Map.empty"
| after_batch:
    "reachable_cache geodesic_km m \<Longrightarrow>
     geocode_rows geodesic_km geocode_fn (rows :: frame)
       \<lparr>cache = m, world = (w :: nat), calls = cs\<rparr> = (res, st') \<Longrightarrow>
     reachable_cache geodesic_km (cache st')"

section \<open>The cache file\<close>

text \<open>
  A file system maps a path to the bytes of the file. \<open>dumps\<close> and \<open>loads\<close> stand for
  \<open>pickle.dump\<close> and \<open>pickle.load\<close>; \<open>loads\<close> gives \<open>None\<close> where unpickling raises.
\<close>

type_synonym bytes = "char list"

type_synonym fs = "string \<rightharpoonup> bytes"

definition load_cache :: "(bytes \<Rightarrow> cache option) \<Rightarrow> string \<Rightarrow> fs \<Rightarrow> error + cache" where
  "load_cache loads path files =
     (case files path of
        Some content \<Rightarrow>
          (case loads content of None \<Rightarrow> Inl UnpicklingError | Some m \<Rightarrow> Inr m)
      | None \<Rightarrow> Inr Map.empty)"

text \<open>
  \<open>save_cache\<close> opens the target itself with mode \<open>"wb"\<close>, which truncates it, and then
  writes the pickle into it. \<open>save_cache_upto n\<close> is the file system when the process
  stops after \<open>n\<close> events of that: the \<open>open\<close>, then each byte reaching the file in order.
\<close>

definition save_cache_upto :: "nat \<Rightarrow> (cache \<Rightarrow> bytes) \<Rightarrow> cache \<Rightarrow> string \<Rightarrow> fs \<Rightarrow> fs" where
  "save_cache_upto n dumps m path files =
     (if n = 0 then files else files(path \<mapsto> take (n - 1) (dumps m)))"

definition save_cache :: "(cache \<Rightarrow> bytes) \<Rightarrow> cache \<Rightarrow> string \<Rightarrow> fs \<Rightarrow> fs" where
  "save_cache dumps m path files =
     save_cache_upto (Suc (length (dumps m))) dumps m path files"

section \<open>Preparing the frame\<close>

definition COL_CAT_MISSING :: string where
  "COL_CAT_MISSING = ''Ne ukazano''"

text \<open>The first error of a column wins, as the exception of the first bad cell would.\<close>

fun collect :: "(error + 'a) list \<Rightarrow> error + 'a list" where
  "collect [] = Inr []"
| "collect (x # xs) =
     (case x of
        Inl e \<Rightarrow> Inl e
      | Inr v \<Rightarrow> (case collect xs of Inl e \<Rightarrow> Inl e | Inr vs \<Rightarrow> Inr (v # vs)))"

text \<open>\<open>df[COL_STREET].notna() & df[COL_HOUSE].notna()\<close>\<close>

definition notna_mask :: "row \<Rightarrow> bool" where
  "notna_mask r = (col_street r \<noteq> None \<and> col_house r \<noteq> None)"

text \<open>\<open>.astype(str)\<close> on a text column: a text stays, a missing value becomes \<open>nan\<close>.\<close>

definition astype_str :: "string option \<Rightarrow> string option" where
  "astype_str c = Some (str_of c)"

text \<open>Python's \<open>int(x)\<close> of a float truncates towards zero.\<close>

definition trunc :: "real \<Rightarrow> int" where
  "trunc x = (if 0 \<le> x then \<lfloor>x\<rfloor> else \<lceil>x\<rceil>)"

text \<open>The integers of \<open>int\<close> as a dtype, which is int64, and the least of them.\<close>

definition in_int64 :: "int \<Rightarrow> bool" where
  "in_int64 n = (- 9223372036854775808 \<le> n \<and> n < 9223372036854775808)"

definition INT64_MIN :: int where
  "INT64_MIN = - 9223372036854775808"

text \<open>
  \<open>.fillna(0).astype(int)\<close> on one cell; \<open>py_int\<close> stands for \<open>int(s)\<close> on a text, with
  \<open>None\<close> where it raises ValueError. The result is an int64. A cell of a float64 column
  is cast by numpy, without a check: a float whose truncation does not fit comes out as
  the least int64. A Python number of an object column is converted with a check: one
  that does not fit raises OverflowError.
\<close>

fun fillna0_astype_int :: "(string \<Rightarrow> int option) \<Rightarrow> count_cell \<Rightarrow> error + count_cell" where
  "fillna0_astype_int py_int CountNaN = Inr (CountInt 0)"
| "fillna0_astype_int py_int (CountInt n) =
     (if in_int64 n then Inr (CountInt n) else Inl CountNotInt)"
| "fillna0_astype_int py_int (CountFloat x) =
     Inr (CountInt (if in_int64 (trunc x) then trunc x else INT64_MIN))"
| "fillna0_astype_int py_int (CountPyFloat x) =
     (if in_int64 (trunc x) then Inr (CountInt (trunc x)) else Inl CountNotInt)"
| "fillna0_astype_int py_int (CountText s) =
     (case py_int s of
        None \<Rightarrow> Inl CountNotInt
      | Some n \<Rightarrow> if in_int64 n then Inr (CountInt n) else Inl CountNotInt)"

text \<open>
  \<open>pd.to_datetime\<close> on one cell, with the default \<open>errors="raise"\<close>; \<open>parse\<close> stands for
  the parser of pandas, with \<open>None\<close> where a text is not a date.
\<close>

fun to_datetime :: "(string \<Rightarrow> int option) \<Rightarrow> date_cell \<Rightarrow> error + date_cell" where
  "to_datetime parse NaT = Inr NaT"
| "to_datetime parse (DateTime t) = Inr (DateTime t)"
| "to_datetime parse (DateText s) =
     (case parse s of None \<Rightarrow> Inl DateNotParsed | Some t \<Rightarrow> Inr (DateTime t))"

definition fillna_cat :: "string option \<Rightarrow> string option" where
  "fillna_cat c = (case c of None \<Rightarrow> Some COL_CAT_MISSING | Some s \<Rightarrow> Some s)"

text \<open>The five column assignments of \<open>prepare_dataframe\<close>, each on a whole frame.\<close>

definition assign_street :: "frame \<Rightarrow> frame" where
  "assign_street df = map (\<lambda>r. r\<lparr>col_street := astype_str (col_street r)\<rparr>) df"

definition assign_house :: "frame \<Rightarrow> frame" where
  "assign_house df = map (\<lambda>r. r\<lparr>col_house := astype_str (col_house r)\<rparr>) df"

definition assign_count :: "(string \<Rightarrow> int option) \<Rightarrow> frame \<Rightarrow> error + frame" where
  "assign_count py_int df =
     (case collect (map (\<lambda>r. fillna0_astype_int py_int (col_count r)) df) of
        Inl e \<Rightarrow> Inl e
      | Inr col \<Rightarrow> Inr (map (\<lambda>(r, c). r\<lparr>col_count := c\<rparr>) (zip df col)))"

definition assign_date :: "(string \<Rightarrow> int option) \<Rightarrow> frame \<Rightarrow> error + frame" where
  "assign_date parse df =
     (case collect (map (\<lambda>r. to_datetime parse (col_date r)) df) of
        Inl e \<Rightarrow> Inl e
      | Inr col \<Rightarrow> Inr (map (\<lambda>(r, c). r\<lparr>col_date := c\<rparr>) (zip df col)))"

definition assign_cat :: "frame \<Rightarrow> frame" where
  "assign_cat df = map (\<lambda>r. r\<lparr>col_cat := fillna_cat (col_cat r)\<rparr>) df"

text \<open>
  \<open>prepare_dataframe\<close> on a heap of frames: a DataFrame variable holds a reference (an
  index into the heap), \<open>copy\<close> and \<open>df[mask]\<close> allocate a new frame, and an assignment
  \<open>df[col] = ...\<close> overwrites the frame that \<open>df\<close> refers to. The heap is returned in
  every case, also when a conversion raises. An index outside the heap refers to no
  DataFrame; the model answers \<open>NoSuchFrame\<close> for it.
\<close>

definition prepare_dataframe ::
  "(string \<Rightarrow> int option) \<Rightarrow> (string \<Rightarrow> int option) \<Rightarrow> frame list \<Rightarrow> nat \<Rightarrow>
   (error + nat) \<times> frame list" where
  "prepare_dataframe py_int parse heap df_raw =
     (if length heap \<le> df_raw then (Inl NoSuchFrame, heap)
      else
        let df0 = length heap;
            heap0 = heap @ [heap ! df_raw];
            df = length heap0;
            heap1 = heap0 @ [filter notna_mask (heap0 ! df0)];
            heap2 = heap1[df := assign_street (heap1 ! df)];
            heap3 = heap2[df := assign_house (heap2 ! df)]
        in case assign_count py_int (heap3 ! df) of
             Inl e \<Rightarrow> (Inl e, heap3)
           | Inr with_count \<Rightarrow>
               (let heap4 = heap3[df := with_count]
                in case assign_date parse (heap4 ! df) of
                     Inl e \<Rightarrow> (Inl e, heap4)
                   | Inr with_date \<Rightarrow>
                       (let heap5 = heap4[df := with_date];
                            heap6 = heap5[df := assign_cat (heap5 ! df)]
                        in (Inr df, heap6))))"

text \<open>The frame \<open>prepare_dataframe\<close> returns, as a function of the frame it is given.\<close>

definition prepare_rows ::
  "(string \<Rightarrow> int option) \<Rightarrow> (string \<Rightarrow> int option) \<Rightarrow> frame \<Rightarrow> error + frame" where
  "prepare_rows py_int parse df_raw =
     (case assign_count py_int (assign_house (assign_street (filter notna_mask df_raw))) of
        Inl e \<Rightarrow> Inl e
      | Inr with_count \<Rightarrow>
          (case assign_date parse with_count of
             Inl e \<Rightarrow> Inl e
           | Inr with_date \<Rightarrow> Inr (assign_cat with_date)))"

section \<open>Filtering\<close>

text \<open>
  Timestamps and durations are counted in nanoseconds, dates in days since the epoch:
  \<open>pd.Timestamp(d)\<close> is midnight of day \<open>d\<close>.
\<close>

definition Timedelta_days :: "int \<Rightarrow> int" where
  "Timedelta_days n = n * 86400 * 1000000000"

definition Timedelta_seconds :: "int \<Rightarrow> int" where
  "Timedelta_seconds n = n * 1000000000"

definition Timestamp :: "int \<Rightarrow> int" where
  "Timestamp d = Timedelta_days d"

text \<open>
  The date part of the mask on one cell: NaT compares false with everything. A text
  cell cannot be compared with a timestamp: pandas raises TypeError for the column,
  and \<open>filter_df\<close> below raises before it uses the mask.
\<close>

definition date_mask :: "int \<Rightarrow> int \<Rightarrow> date_cell \<Rightarrow> bool" where
  "date_mask date_from date_to c =
     (case c of
        DateTime t \<Rightarrow>
          Timestamp date_from \<le> t \<and>
          t \<le> Timestamp date_to + Timedelta_days 1 - Timedelta_seconds 1
      | _ \<Rightarrow> False)"

definition is_text :: "date_cell \<Rightarrow> bool" where
  "is_text c = (case c of DateText s \<Rightarrow> True | _ \<Rightarrow> False)"

text \<open>\<open>if cats:\<close> holds for a list that is given and not empty.\<close>

definition cat_mask :: "string list option \<Rightarrow> string option \<Rightarrow> bool" where
  "cat_mask cats c =
     (case cats of
        None \<Rightarrow> True
      | Some cs \<Rightarrow>
          if cs = [] then True
          else (case c of None \<Rightarrow> False | Some s \<Rightarrow> s \<in> set cs))"

definition filter_df ::
  "'a row_scheme list \<Rightarrow> int \<Rightarrow> int \<Rightarrow> string list option \<Rightarrow> error + 'a row_scheme list" where
  "filter_df df date_from date_to cats =
     (if list_ex (\<lambda>r. is_text (col_date r)) df then Inl DateNotComparable
      else Inr (filter (\<lambda>r. date_mask date_from date_to (col_date r) \<and>
                             cat_mask cats (col_cat r)) df))"

section \<open>The main process\<close>

text \<open>\<open>df["lat"]\<close>, \<open>df["lon"]\<close> from the column of results, then \<open>dropna\<close> on both.\<close>

definition with_coords :: "row \<Rightarrow> coord option \<Rightarrow> located_row" where
  "with_coords r c =
     \<lparr>col_street = col_street r, col_house = col_house r, col_count = col_count r,
      col_date = col_date r, col_cat = col_cat r, lat = map_option fst c, lon = map_option snd c\<rparr>"

definition dropna_coords :: "located_row list \<Rightarrow> located_row list" where
  "dropna_coords df = filter (\<lambda>r. lat r \<noteq> None \<and> lon r \<noteq> None) df"

text \<open>
  \<open>generate_map\<close> from the fetched frame to the frame handed to \<open>build_map\<close>, with
  the file system and the geocoder's world. \<open>fromisoformat\<close> stands for
  \<open>dt.date.fromisoformat\<close>, with \<open>None\<close> where it raises.
\<close>

definition generate_map ::
  "(string \<Rightarrow> int option) \<Rightarrow> (string \<Rightarrow> int option) \<Rightarrow> (bytes \<Rightarrow> cache option) \<Rightarrow>
   (cache \<Rightarrow> bytes) \<Rightarrow> (coord \<Rightarrow> coord \<Rightarrow> real) \<Rightarrow> ('w \<Rightarrow> string \<Rightarrow> lookup \<times> 'w) \<Rightarrow>
   (string \<Rightarrow> int option) \<Rightarrow> frame \<Rightarrow> string \<Rightarrow> string \<Rightarrow> string list option \<Rightarrow>
   fs \<Rightarrow> 'w \<Rightarrow> (error + located_row list) \<times> fs \<times> 'w \<times> (string \<times> string) list" where
  "generate_map py_int parse loads dumps geodesic_km geocode fromisoformat raw_df
     date_from date_to categories files w =
     (case prepare_rows py_int parse raw_df of
        Inl e \<Rightarrow> (Inl e, files, w, [])
      | Inr df \<Rightarrow>
          (case load_cache loads GEOCACHE_FILE files of
             Inl e \<Rightarrow> (Inl e, files, w, [])
           | Inr m \<Rightarrow>
               (case geocode_rows geodesic_km geocode df \<lparr>cache = m, world = w, calls = []\<rparr> of
                  (Inl e, st) \<Rightarrow> (Inl e, files, world st, calls st)
                | (Inr coords, st) \<Rightarrow>
                    (let located = map (\<lambda>(r, c). with_coords r c) (zip df coords);
                         files' = save_cache dumps (cache st) GEOCACHE_FILE files;
                         df' = dropna_coords located
                     in case fromisoformat date_from of
                          None \<Rightarrow> (Inl BadIsoDate, files', world st, calls st)
                        | Some d_from \<Rightarrow>
                            (case fromisoformat date_to of
                               None \<Rightarrow> (Inl BadIsoDate, files', world st, calls st)
                             | Some d_to \<Rightarrow>
                                 (filter_df df' d_from d_to categories,
                                  files', world st, calls st))))))"

section \<open>Fixtures\<close>

text \<open>Lookups that find nothing, raise, or find one fixed place; a flat distance.\<close>

definition lookup_nothing :: "nat \<Rightarrow> string \<Rightarrow> lookup \<times> nat" where
  "lookup_nothing w address = (Returns None, Suc w)"

definition lookup_raises :: "nat \<Rightarrow> string \<Rightarrow> lookup \<times> nat" where
  "lookup_raises w address = (Raises, Suc w)"

definition lookup_far :: "nat \<Rightarrow> string \<Rightarrow> lookup \<times> nat" where
  "lookup_far w address = (Returns (Some (0, 0)), Suc w)"

definition lookup_centre :: "nat \<Rightarrow> string \<Rightarrow> lookup \<times> nat" where
  "lookup_centre w address = (Returns (Some CENTER), Suc w)"

definition flat_km :: "coord \<Rightarrow> coord \<Rightarrow> real" where
  "flat_km a b = 111 * (\<bar>fst a - fst b\<bar> + \<bar>snd a - snd b\<bar>)"

definition empty_state :: "nat run_state" where
  "empty_state = \<lparr>cache = Map.empty, world = 0, calls = []\<rparr>"

text \<open>Two requests at one address, as in the example of the specification.\<close>

definition two_rows :: frame where
  "two_rows =
     [\<lparr>col_street = Some ''Lenina'', col_house = Some ''5'', col_count = CountInt 3,
       col_date = DateTime 1749945600000000000, col_cat = Some ''water''\<rparr>,
      \<lparr>col_street = Some ''Lenina'', col_house = Some ''5'', col_count = CountInt 5,
       col_date = DateTime 1749945600000000000, col_cat = Some ''sewage''\<rparr>]"

text \<open>
  Stand-ins for the library parsers, each right on the few texts used below and
  refusing every other text: \<open>int\<close>, \<open>pd.to_datetime\<close> and \<open>dt.date.fromisoformat\<close>
  (2025-06-01 is day 20240 and 2025-06-30 is day 20269 of the epoch).
\<close>

definition py_int_fixture :: "string \<Rightarrow> int option" where
  "py_int_fixture s = (if s = ''7'' then Some 7 else None)"

definition parse_fixture :: "string \<Rightarrow> int option" where
  "parse_fixture s =
     (if s = ''2025-06-15 12:00:00'' then Some 1749988800000000000 else None)"

definition iso_fixture :: "string \<Rightarrow> int option" where
  "iso_fixture s =
     (if s = ''2025-06-01'' then Some 20240
      else if s = ''2025-06-30'' then Some 20269 else None)"

text \<open>
  The bytes \<open>pickle.dumps\<close> (protocol 4) gives for the empty dict and for the dict
  that binds \<open>Lenina_5\<close> to \<open>None\<close>, and a pickler that is right on these two stores;
  on any other store it is a placeholder.
\<close>

definition pickle_empty :: bytes where
  "pickle_empty = [CHR 0x80, CHR 0x04, CHR 0x7D, CHR 0x94, CHR 0x2E]"

definition pickle_lenina_none :: bytes where
  "pickle_lenina_none =
     [CHR 0x80, CHR 0x04, CHR 0x95, CHR 0x10, CHR 0x00, CHR 0x00, CHR 0x00, CHR 0x00,
      CHR 0x00, CHR 0x00, CHR 0x00, CHR 0x7D, CHR 0x94, CHR 0x8C, CHR 0x08] @
     ''Lenina_5'' @ [CHR 0x94, CHR 0x4E, CHR 0x73, CHR 0x2E]"

definition dumps_fixture :: "cache \<Rightarrow> bytes" where
  "dumps_fixture m =
     (if m = Map.empty then pickle_empty
      else if m = [''Lenina_5'' \<mapsto> None] then pickle_lenina_none
      else [CHR 0x2E])"

definition loads_fixture :: "bytes \<Rightarrow> cache option" where
  "loads_fixture b =
     (if b = pickle_empty then Some Map.empty
      else if b = pickle_lenina_none then Some [''Lenina_5'' \<mapsto> None]
      else None)"

text \<open>
  A fetched sheet: a request whose count and date are still texts and whose category is
  missing, and a row without a street.
\<close>

definition sheet_rows :: frame where
  "sheet_rows =
     [\<lparr>col_street = Some ''Lenina'', col_house = Some ''5'', col_count = CountText ''7'',
       col_date = DateText ''2025-06-15 12:00:00'', col_cat = None\<rparr>,
      \<lparr>col_street = None, col_house = Some ''9'', col_count = CountNaN,
       col_date = NaT, col_cat = Some ''water''\<rparr>]"

definition lenina_located :: located_row where
  "lenina_located =
     \<lparr>col_street = Some ''Lenina'', col_house = Some ''5'', col_count = CountInt 7,
      col_date = DateTime 1749988800000000000, col_cat = Some COL_CAT_MISSING,
      lat = Some (fst CENTER), lon = Some (snd CENTER)\<rparr>"

text \<open>
  Rows at the edge of June 2025: 2025-06-30 23:59:59 and 2025-07-01 00:00:00.
\<close>

definition row_last_second :: row where
  "row_last_second =
     \<lparr>col_street = Some ''Lenina'', col_house = Some ''5'', col_count = CountInt 1,
      col_date = DateTime 1751327999000000000, col_cat = Some ''water''\<rparr>"

definition row_next_midnight :: row where
  "row_next_midnight =
     \<lparr>col_street = Some ''Lenina'', col_house = Some ''7'', col_count = CountInt 1,
      col_date = DateTime 1751328000000000000, col_cat = Some ''water''\<rparr>"

definition boundary_rows :: frame where
  "boundary_rows = [row_last_second, row_next_midnight]"

text \<open>Sheets with a date that is no date, and with a negative count.\<close>

definition bad_date_rows :: frame where
  "bad_date_rows =
     [\<lparr>col_street = Some ''Lenina'', col_house = Some ''5'', col_count = CountInt 3,
       col_date = DateText ''2025-06-15 12:00:00'', col_cat = Some ''water''\<rparr>,
      \<lparr>col_street = Some ''Lenina'', col_house = Some ''7'', col_count = CountInt 2,
       col_date = DateText ''soon'', col_cat = Some ''water''\<rparr>]"

definition negative_count_rows :: frame where
  "negative_count_rows =
     [\<lparr>col_street = Some ''Lenina'', col_house = Some ''5'', col_count = CountInt (- 5),
       col_date = NaT, col_cat = Some ''water''\<rparr>]"

text \<open>A sheet with every kind of count, and what its preparation gives.\<close>

definition count_rows :: frame where
  "count_rows =
     [\<lparr>col_street = Some ''Lenina'', col_house = Some ''1'', col_count = CountNaN,
       col_date = NaT, col_cat = Some ''water''\<rparr>,
      \<lparr>col_street = Some ''Lenina'', col_house = Some ''2'', col_count = CountInt 4,
       col_date = NaT, col_cat = Some ''water''\<rparr>,
      \<lparr>col_street = Some ''Lenina'', col_house = Some ''3'', col_count = CountFloat (5 / 2),
       col_date = NaT, col_cat = Some ''water''\<rparr>,
      \<lparr>col_street = Some ''Lenina'', col_house = Some ''4'', col_count = CountFloat (- 5 / 2),
       col_date = NaT, col_cat = Some ''water''\<rparr>,
      \<lparr>col_street = Some ''Lenina'', col_house = Some ''5'', col_count = CountText ''7'',
       col_date = NaT, col_cat = Some ''water''\<rparr>,
      \<lparr>col_street = Some ''Lenina'', col_house = Some ''6'',
       col_count = CountFloat 10000000000000000000,
       col_date = NaT, col_cat = Some ''water''\<rparr>]"

definition counted_rows :: frame where
  "counted_rows =
     [\<lparr>col_street = Some ''Lenina'', col_house = Some ''1'', col_count = CountInt 0,
       col_date = NaT, col_cat = Some ''water''\<rparr>,
      \<lparr>col_street = Some ''Lenina'', col_house = Some ''2'', col_count = CountInt 4,
       col_date = NaT, col_cat = Some ''water''\<rparr>,
      \<lparr>col_street = Some ''Lenina'', col_house = Some ''3'', col_count = CountInt 2,
       col_date = NaT, col_cat = Some ''water''\<rparr>,
      \<lparr>col_street = Some ''Lenina'', col_house = Some ''4'', col_count = CountInt (- 2),
       col_date = NaT, col_cat = Some ''water''\<rparr>,
      \<lparr>col_street = Some ''Lenina'', col_house = Some ''5'', col_count = CountInt 7,
       col_date = NaT, col_cat = Some ''water''\<rparr>,
      \<lparr>col_street = Some ''Lenina'', col_house = Some ''6'',
       col_count = CountInt (- 9223372036854775808),
       col_date = NaT, col_cat = Some ''water''\<rparr>]"

text \<open>
  Two requests at one address, the street of the first written with a trailing space,
  and a lookup whose answer moves a little east with every call.
\<close>

definition spaced_rows :: frame where
  "spaced_rows =
     [\<lparr>col_street = Some ''Lenina '', col_house = Some ''5'', col_count = CountInt 3,
       col_date = DateTime 1749945600000000000, col_cat = Some ''water''\<rparr>,
      \<lparr>col_street = Some ''Lenina'', col_house = Some ''5'', col_count = CountInt 5,
       col_date = DateTime 1749945600000000000, col_cat = Some ''sewage''\<rparr>]"

definition lookup_moving :: "nat \<Rightarrow> string \<Rightarrow> lookup \<times> nat" where
  "lookup_moving w address =
     (Returns (Some (fst CENTER, snd CENTER + real w / 100)), Suc w)"

section \<open>The cache key\<close>

lemma address_key_street_inj:
  "address_key s1 house = address_key s2 house \<longleftrightarrow> s1 = s2"
  by (simp add: address_key_def)

lemma address_key_house_inj:
  "address_key street h1 = address_key street h2 \<longleftrightarrow> h1 = h2"
  by (simp add: address_key_def)

text \<open>
  C4 (as the code has it). The key is the plain concatenation of street, an underscore and
  house: it is defined for every pair of strings, and nothing is trimmed, so a street or a
  house followed by any non-empty suffix, such as trailing whitespace, gets a different key.
\<close>

theorem address_key_keeps_suffix:
  "ws \<noteq> [] \<Longrightarrow>
     address_key (street @ ws) house \<noteq> address_key street house \<and>
     address_key street (house @ ws) \<noteq> address_key street house"
  by (simp add: address_key_def)

theorem address_key_keeps_suffix_witness:
  "'' '' \<noteq> [] \<and>
   address_key (''Lenina'' @ '' '') ''5'' \<noteq> address_key ''Lenina'' ''5'' \<and>
   address_key ''Lenina'' (''5'' @ '' '') \<noteq> address_key ''Lenina'' ''5''"
  using address_key_keeps_suffix [of "'' ''" "''Lenina''" "''5''"] by simp

text \<open>
  C4 as the specification states it fails: two streets that differ only in a trailing
  space get two keys.
\<close>

theorem address_key_trailing_space_counterexample:
  "address_key ''Lenina '' ''5'' \<noteq> address_key ''Lenina'' ''5''"
  by (simp add: address_key_def)

section \<open>One lookup\<close>

lemma smart_geocode_hit:
  "cache st (address_key street house) = Some v \<Longrightarrow>
     smart_geocode gk street house geocode_fn st = (Inr v, st)"
  by (simp add: smart_geocode_def)

lemma smart_geocode_miss_none:
  assumes "cache st (address_key street house) = None"
    and "fst (geocode_fn (world st) (address_of street house)) = Returns None"
  shows "fst (smart_geocode gk street house geocode_fn st) = Inr None"
    and "cache (snd (smart_geocode gk street house geocode_fn st)) =
           (cache st)(address_key street house \<mapsto> None)"
  using assms
  by (cases "geocode_fn (world st) (address_of street house)";
      simp add: smart_geocode_def Let_def)+

lemma smart_geocode_miss_raises:
  assumes "cache st (address_key street house) = None"
    and "fst (geocode_fn (world st) (address_of street house)) = Raises"
  shows "fst (smart_geocode gk street house geocode_fn st) = Inl LookupRaised"
    and "cache (snd (smart_geocode gk street house geocode_fn st)) = cache st"
  using assms
  by (cases "geocode_fn (world st) (address_of street house)";
      simp add: smart_geocode_def Let_def)+

text \<open>Every outcome of one call, by cases on the cache and on the lookup.\<close>

lemma smart_geocode_cases:
  assumes "smart_geocode gk street house geocode_fn st = (res, st')"
  obtains
    (hit) v where "cache st (address_key street house) = Some v" "res = Inr v" "st' = st"
  | (raised) w' where "cache st (address_key street house) = None"
      "geocode_fn (world st) (address_of street house) = (Raises, w')"
      "res = Inl LookupRaised" "cache st' = cache st"
      "calls st' = calls st @ [(address_key street house, address_of street house)]"
  | (stored) loc w' v where "cache st (address_key street house) = None"
      "geocode_fn (world st) (address_of street house) = (Returns loc, w')"
      "v = (case loc of None \<Rightarrow> None
            | Some c \<Rightarrow> if gk CENTER c \<le> MAX_DIST_KM then Some c else None)"
      "res = Inr v" "cache st' = (cache st)(address_key street house \<mapsto> v)"
      "calls st' = calls st @ [(address_key street house, address_of street house)]"
proof (cases "cache st (address_key street house)")
  case (Some v)
  with assms have "res = Inr v" "st' = st" by (simp_all add: smart_geocode_def)
  with Some show ?thesis by (rule hit)
next
  case None
  obtain r w' where g: "geocode_fn (world st) (address_of street house) = (r, w')"
    by (cases "geocode_fn (world st) (address_of street house)")
  show ?thesis
  proof (cases r)
    case Raises
    with assms None g have "res = Inl LookupRaised" "cache st' = cache st"
      "calls st' = calls st @ [(address_key street house, address_of street house)]"
      by (auto simp: smart_geocode_def Let_def)
    with None g Raises show ?thesis by (intro raised [of w']) simp_all
  next
    case (Returns loc)
    define v where "v = (case loc of None \<Rightarrow> None
            | Some c \<Rightarrow> if gk CENTER c \<le> MAX_DIST_KM then Some c else None)"
    with assms None g Returns have "res = Inr v"
      "cache st' = (cache st)(address_key street house \<mapsto> v)"
      "calls st' = calls st @ [(address_key street house, address_of street house)]"
      by (auto simp: smart_geocode_def Let_def)
    with None g Returns v_def show ?thesis by (intro stored [of loc w' v]) simp_all
  qed
qed

lemma smart_geocode_keeps_entry:
  assumes "smart_geocode gk street house geocode_fn st = (res, st')"
    and "cache st k = Some v"
  shows "cache st' k = Some v"
  using assms(1)
proof (cases rule: smart_geocode_cases)
  case (stored loc w' v')
  with assms(2) have "k \<noteq> address_key street house" by auto
  with stored assms(2) show ?thesis by simp
qed (use assms(2) in simp_all)

lemma smart_geocode_binds_key:
  assumes "smart_geocode gk street house geocode_fn st = (Inr v, st')"
  shows "cache st' (address_key street house) = Some v"
  using assms by (cases rule: smart_geocode_cases) simp_all

lemma smart_geocode_calls_other:
  assumes "smart_geocode gk street house geocode_fn st = (res, st')"
    and "k \<noteq> address_key street house \<or> cache st k \<noteq> None"
  shows "calls_for k (calls st') = calls_for k (calls st)"
  using assms(1)
proof (cases rule: smart_geocode_cases)
  case (hit v) then show ?thesis by simp
next
  case (raised w') with assms(2) show ?thesis by (auto simp: calls_for_def)
next
  case (stored loc w' v) with assms(2) show ?thesis by (auto simp: calls_for_def)
qed

lemma smart_geocode_calls_le:
  assumes "smart_geocode gk street house geocode_fn st = (res, st')"
  shows "length (calls_for k (calls st')) \<le> Suc (length (calls_for k (calls st)))"
  using assms by (cases rule: smart_geocode_cases) (simp_all add: calls_for_def)

section \<open>A batch\<close>

lemma geocode_rows_Cons_cases:
  assumes "geocode_rows gk f (r # rs) st = (res, st')"
  obtains
    (stop) e where "smart_geocode gk (str_of (col_street r)) (str_of (col_house r)) f st = (Inl e, st')"
      "res = Inl e"
  | (go) c st1 res1 where "smart_geocode gk (str_of (col_street r)) (str_of (col_house r)) f st = (Inr c, st1)"
      "geocode_rows gk f rs st1 = (res1, st')"
      "res = (case res1 of Inl e \<Rightarrow> Inl e | Inr cs \<Rightarrow> Inr (c # cs))"
proof -
  obtain x st1 where s: "smart_geocode gk (str_of (col_street r)) (str_of (col_house r)) f st = (x, st1)"
    by (cases "smart_geocode gk (str_of (col_street r)) (str_of (col_house r)) f st")
  show ?thesis
  proof (cases x)
    case (Inl e)
    from assms have "st1 = st'" "res = Inl e" by (simp_all add: s Inl)
    with s Inl show ?thesis using stop [of e] by simp
  next
    case (Inr c)
    obtain res1 st2 where g: "geocode_rows gk f rs st1 = (res1, st2)"
      by (cases "geocode_rows gk f rs st1")
    have "st2 = st' \<and> res = (case res1 of Inl e \<Rightarrow> Inl e | Inr cs \<Rightarrow> Inr (c # cs))"
    proof (cases res1)
      case (Inl e)
      with assms show ?thesis by (auto simp: s Inr g)
    next
      case r1: (Inr cs)
      with assms show ?thesis by (auto simp: s Inr g)
    qed
    with s Inr g show ?thesis using go [of c st1 res1] by simp
  qed
qed

lemma geocode_rows_keeps_entry:
  assumes "geocode_rows gk f rows st = (res, st')" and "cache st k = Some v"
  shows "cache st' k = Some v"
  using assms
proof (induction rows arbitrary: st res)
  case Nil
  then show ?case by simp
next
  case (Cons r rs)
  from Cons.prems(1) show ?case
  proof (cases rule: geocode_rows_Cons_cases)
    case (stop e)
    from stop(1) Cons.prems(2) show ?thesis by (rule smart_geocode_keeps_entry)
  next
    case (go c st1 res1)
    from go(1) Cons.prems(2) have "cache st1 k = Some v" by (rule smart_geocode_keeps_entry)
    with go(2) show ?thesis by (rule Cons.IH)
  qed
qed

lemma geocode_rows_known_no_call:
  assumes "geocode_rows gk f rows st = (res, st')" and "cache st k = Some v"
  shows "calls_for k (calls st') = calls_for k (calls st)"
  using assms
proof (induction rows arbitrary: st res)
  case Nil
  then show ?case by simp
next
  case (Cons r rs)
  from Cons.prems(1) show ?case
  proof (cases rule: geocode_rows_Cons_cases)
    case (stop e)
    from stop(1) Cons.prems(2) show ?thesis by (simp add: smart_geocode_calls_other)
  next
    case (go c st1 res1)
    from go(1) Cons.prems(2) have k1: "cache st1 k = Some v" by (rule smart_geocode_keeps_entry)
    from go(1) Cons.prems(2) have "calls_for k (calls st1) = calls_for k (calls st)"
      by (simp add: smart_geocode_calls_other)
    with Cons.IH [OF go(2) k1] show ?thesis by simp
  qed
qed

lemma geocode_rows_known_value:
  assumes "geocode_rows gk f rows st = (Inr cs, st')" and "cache st k = Some v"
    and "i < length rows" and "row_key (rows ! i) = k"
  shows "cs ! i = v"
  using assms
proof (induction rows arbitrary: st cs i)
  case Nil
  then show ?case by simp
next
  case (Cons r rs)
  from Cons.prems(1) show ?case
  proof (cases rule: geocode_rows_Cons_cases)
    case (stop e)
    then show ?thesis by simp
  next
    case (go c st1 res1)
    from go(1) Cons.prems(2) have k1: "cache st1 k = Some v" by (rule smart_geocode_keeps_entry)
    from go(3) obtain cs1 where r1: "res1 = Inr cs1" and cs: "cs = c # cs1"
      by (cases res1) auto
    show ?thesis
    proof (cases i)
      case 0
      with Cons.prems(4) have "address_key (str_of (col_street r)) (str_of (col_house r)) = k"
        by (simp add: row_key_def)
      with Cons.prems(2) go(1) have "c = v" by (simp add: smart_geocode_hit)
      with 0 cs show ?thesis by simp
    next
      case (Suc j)
      with Cons.prems(3,4) have j: "j < length rs" "row_key (rs ! j) = k" by simp_all
      from go(2) r1 have "geocode_rows gk f rs st1 = (Inr cs1, st')" by simp
      from Cons.IH [OF this k1 j] Suc cs show ?thesis by simp
    qed
  qed
qed

lemma geocode_rows_length:
  "geocode_rows gk f rows st = (Inr cs, st') \<Longrightarrow> length cs = length rows"
proof (induction rows arbitrary: st cs)
  case Nil
  then show ?case by simp
next
  case (Cons r rs)
  from Cons.prems show ?case
  proof (cases rule: geocode_rows_Cons_cases)
    case (stop e)
    then show ?thesis by simp
  next
    case (go c st1 res1)
    from go(3) obtain cs1 where r1: "res1 = Inr cs1" and cs: "cs = c # cs1"
      by (cases res1) auto
    from go(2) r1 have "geocode_rows gk f rs st1 = (Inr cs1, st')" by simp
    from Cons.IH [OF this] cs show ?thesis by simp
  qed
qed

section \<open>A lookup that fails\<close>

text \<open>
  C1 (as the code has it). On a cache miss, a lookup that returns no result, which is
  also how a rate-limited lookup reports a timeout, is remembered: the key is bound to
  \<open>None\<close> in the cache, and every later call for that key returns \<open>None\<close> from the
  cache without calling any lookup. Only a lookup that raises leaves the cache as it was.
\<close>

theorem failed_lookup_is_cached:
  assumes miss: "cache st (address_key street house) = None"
  shows "(fst (geocode_fn (world st) (address_of street house)) = Returns None \<longrightarrow>
            fst (smart_geocode gk street house geocode_fn st) = Inr None \<and>
            cache (snd (smart_geocode gk street house geocode_fn st)) (address_key street house)
              = Some None \<and>
            (\<forall>later_fn. smart_geocode gk street house later_fn
                 (snd (smart_geocode gk street house geocode_fn st))
               = (Inr None, snd (smart_geocode gk street house geocode_fn st)))) \<and>
         (fst (geocode_fn (world st) (address_of street house)) = Raises \<longrightarrow>
            fst (smart_geocode gk street house geocode_fn st) = Inl LookupRaised \<and>
            cache (snd (smart_geocode gk street house geocode_fn st)) = cache st)"
proof (intro conjI impI allI)
  assume none: "fst (geocode_fn (world st) (address_of street house)) = Returns None"
  show "fst (smart_geocode gk street house geocode_fn st) = Inr None"
    using miss none by (rule smart_geocode_miss_none(1))
  show stored: "cache (snd (smart_geocode gk street house geocode_fn st))
      (address_key street house) = Some None"
    using miss none by (simp add: smart_geocode_miss_none(2))
  fix later_fn :: "'a \<Rightarrow> string \<Rightarrow> lookup \<times> 'a"
  show "smart_geocode gk street house later_fn
          (snd (smart_geocode gk street house geocode_fn st))
        = (Inr None, snd (smart_geocode gk street house geocode_fn st))"
    using stored by (rule smart_geocode_hit)
next
  assume r: "fst (geocode_fn (world st) (address_of street house)) = Raises"
  show "fst (smart_geocode gk street house geocode_fn st) = Inl LookupRaised"
    using miss r by (rule smart_geocode_miss_raises(1))
  show "cache (snd (smart_geocode gk street house geocode_fn st)) = cache st"
    using miss r by (rule smart_geocode_miss_raises(2))
qed

theorem failed_lookup_is_cached_witness:
  "cache empty_state (address_key ''Lenina'' ''5'') = None \<and>
   fst (lookup_nothing (world empty_state) (address_of ''Lenina'' ''5'')) = Returns None \<and>
   fst (smart_geocode flat_km ''Lenina'' ''5'' lookup_nothing empty_state) = Inr None \<and>
   cache (snd (smart_geocode flat_km ''Lenina'' ''5'' lookup_nothing empty_state))
     (address_key ''Lenina'' ''5'') = Some None \<and>
   fst (lookup_raises (world empty_state) (address_of ''Lenina'' ''5'')) = Raises \<and>
   cache (snd (smart_geocode flat_km ''Lenina'' ''5'' lookup_raises empty_state))
     = cache empty_state"
proof -
  have miss: "cache empty_state (address_key ''Lenina'' ''5'') = None"
    by (simp add: empty_state_def)
  have none: "fst (lookup_nothing (world empty_state) (address_of ''Lenina'' ''5'')) = Returns None"
    by (simp add: lookup_nothing_def)
  have raises: "fst (lookup_raises (world empty_state) (address_of ''Lenina'' ''5'')) = Raises"
    by (simp add: lookup_raises_def)
  from failed_lookup_is_cached [OF miss, of lookup_nothing flat_km]
    failed_lookup_is_cached [OF miss, of lookup_raises flat_km] none raises miss
  show ?thesis by blast
qed

text \<open>
  C1 as the specification states it fails: after a lookup that returned no result the
  key is in the cache, bound to \<open>None\<close>, and a second call for the same key makes no
  further call of the lookup.
\<close>

theorem failed_lookup_counterexample:
  "fst (lookup_nothing (world empty_state) (address_of ''Lenina'' ''5'')) = Returns None \<and>
   cache (snd (smart_geocode flat_km ''Lenina'' ''5'' lookup_nothing empty_state))
     (address_key ''Lenina'' ''5'') = Some None \<and>
   calls (snd (smart_geocode flat_km ''Lenina'' ''5'' lookup_nothing
            (snd (smart_geocode flat_km ''Lenina'' ''5'' lookup_nothing empty_state))))
     = calls (snd (smart_geocode flat_km ''Lenina'' ''5'' lookup_nothing empty_state))"
  by (simp add: smart_geocode_def Let_def lookup_nothing_def empty_state_def address_key_def
      address_of_def)

section \<open>Rows that share a key\<close>

lemma geocode_rows_calls_le:
  assumes "geocode_rows gk f rows st = (res, st')"
  shows "length (calls_for k (calls st')) \<le> Suc (length (calls_for k (calls st)))"
  using assms
proof (induction rows arbitrary: st res)
  case Nil
  then show ?case by simp
next
  case (Cons r rs)
  from Cons.prems show ?case
  proof (cases rule: geocode_rows_Cons_cases)
    case (stop e)
    from stop(1) show ?thesis by (rule smart_geocode_calls_le)
  next
    case (go c st1 res1)
    show ?thesis
    proof (cases "k = address_key (str_of (col_street r)) (str_of (col_house r))")
      case True
      from go(1) have "cache st1 k = Some c"
        unfolding True by (rule smart_geocode_binds_key)
      with go(2) have "calls_for k (calls st') = calls_for k (calls st1)"
        by (rule geocode_rows_known_no_call)
      with smart_geocode_calls_le [OF go(1), of k] show ?thesis by simp
    next
      case False
      with go(1) have "calls_for k (calls st1) = calls_for k (calls st)"
        by (simp add: smart_geocode_calls_other)
      with Cons.IH [OF go(2)] show ?thesis by simp
    qed
  qed
qed

lemma geocode_rows_same_key_ordered:
  assumes "geocode_rows gk f rows st = (Inr cs, st')"
    and "i < j" and "j < length rows" and "row_key (rows ! i) = row_key (rows ! j)"
  shows "cs ! i = cs ! j"
  using assms
proof (induction rows arbitrary: st cs i j)
  case Nil
  then show ?case by simp
next
  case (Cons r rs)
  from Cons.prems(2) obtain j' where j: "j = Suc j'" by (cases j) auto
  from Cons.prems(1) show ?case
  proof (cases rule: geocode_rows_Cons_cases)
    case (stop e)
    then show ?thesis by simp
  next
    case (go c st1 res1)
    from go(3) obtain cs1 where r1: "res1 = Inr cs1" and cs: "cs = c # cs1"
      by (cases res1) auto
    from go(2) r1 have rest: "geocode_rows gk f rs st1 = (Inr cs1, st')" by simp
    from Cons.prems(3) j have j': "j' < length rs" by simp
    show ?thesis
    proof (cases i)
      case 0
      from go(1) have "cache st1 (row_key r) = Some c"
        unfolding row_key_def by (rule smart_geocode_binds_key)
      moreover from Cons.prems(4) 0 j have "row_key (rs ! j') = row_key r" by simp
      ultimately have "cs1 ! j' = c"
        using rest j' by (intro geocode_rows_known_value [of gk f rs st1 cs1 st' "row_key r" c j'])
      with 0 j cs show ?thesis by simp
    next
      case (Suc i')
      with Cons.prems(2,4) j have "i' < j'" "row_key (rs ! i') = row_key (rs ! j')" by simp_all
      from Cons.IH [OF rest this(1) j' this(2)] Suc j cs show ?thesis by simp
    qed
  qed
qed

lemma geocode_rows_same_key:
  assumes "geocode_rows gk f rows st = (Inr cs, st')"
    and "i < length rows" and "j < length rows" and "row_key (rows ! i) = row_key (rows ! j)"
  shows "cs ! i = cs ! j"
proof -
  consider "i < j" | "i = j" | "j < i" by linarith
  then show ?thesis
  proof cases
    case 1
    with assms show ?thesis by (intro geocode_rows_same_key_ordered [of gk f rows st cs st'])
  next
    case 2
    then show ?thesis by simp
  next
    case 3
    with assms have "cs ! j = cs ! i"
      by (intro geocode_rows_same_key_ordered [of gk f rows st cs st']) simp_all
    then show ?thesis by simp
  qed
qed

lemma two_rows_run:
  "geocode_rows flat_km lookup_centre two_rows empty_state =
     (Inr [Some CENTER, Some CENTER],
      \<lparr>cache = [''Lenina_5'' \<mapsto> Some CENTER], world = 1,
       calls = [(''Lenina_5'', ''Lenina, 5, Zelenodolsk, Respublika Tatarstan, Rossiya'')]\<rparr>)"
  by (simp add: two_rows_def empty_state_def smart_geocode_def Let_def lookup_centre_def
      str_of_def address_key_def address_of_def flat_km_def MAX_DIST_KM_def)

section \<open>The plausibility region\<close>

lemma cache_in_region_empty: "cache_in_region gk Map.empty"
  by (simp add: cache_in_region_def)

lemma smart_geocode_in_region:
  assumes "smart_geocode gk street house geocode_fn st = (res, st')"
    and "cache_in_region gk (cache st)"
  shows "cache_in_region gk (cache st')" and "res = Inr (Some c) \<Longrightarrow> in_region gk c"
proof -
  from assms(1) have "cache_in_region gk (cache st') \<and> (res = Inr (Some c) \<longrightarrow> in_region gk c)"
  proof (cases rule: smart_geocode_cases)
    case (hit v)
    with assms(2) show ?thesis unfolding cache_in_region_def by blast
  next
    case (raised w')
    with assms(2) show ?thesis by simp
  next
    case (stored loc w' v)
    have v: "v = Some c' \<Longrightarrow> in_region gk c'" for c'
      using stored(3) by (auto simp: in_region_def split: option.splits if_splits)
    have "cache_in_region gk (cache st')"
      unfolding cache_in_region_def
    proof (intro allI impI)
      fix k c'
      assume "cache st' k = Some (Some c')"
      with stored(5) have "v = Some c' \<or> cache st k = Some (Some c')"
        by (auto split: if_splits)
      with v assms(2) show "in_region gk c'" unfolding cache_in_region_def by blast
    qed
    with v stored(4) show ?thesis by simp
  qed
  then show "cache_in_region gk (cache st')" and "res = Inr (Some c) \<Longrightarrow> in_region gk c"
    by simp_all
qed

lemma geocode_rows_in_region:
  assumes "geocode_rows gk f rows st = (res, st')" and "cache_in_region gk (cache st)"
  shows "cache_in_region gk (cache st') \<and>
         (\<forall>cs c. res = Inr cs \<longrightarrow> Some c \<in> set cs \<longrightarrow> in_region gk c)"
  using assms
proof (induction rows arbitrary: st res)
  case Nil
  then show ?case by auto
next
  case (Cons r rs)
  from Cons.prems(1) show ?case
  proof (cases rule: geocode_rows_Cons_cases)
    case (stop e)
    from stop(1) Cons.prems(2) have "cache_in_region gk (cache st')"
      by (rule smart_geocode_in_region(1))
    with stop(2) show ?thesis by simp
  next
    case (go c st1 res1)
    from go(1) Cons.prems(2) have inv1: "cache_in_region gk (cache st1)"
      by (rule smart_geocode_in_region(1))
    from Cons.IH [OF go(2) inv1]
    have ih: "cache_in_region gk (cache st')"
      "\<And>cs c. res1 = Inr cs \<Longrightarrow> Some c \<in> set cs \<Longrightarrow> in_region gk c"
      by blast+
    have head: "in_region gk c'" if "c = Some c'" for c'
      using smart_geocode_in_region(2) [OF go(1) Cons.prems(2), of c'] that by simp
    show ?thesis
    proof (intro conjI allI impI)
      show "cache_in_region gk (cache st')" by (rule ih(1))
    next
      fix cs c'
      assume res: "res = Inr cs" and mem: "Some c' \<in> set cs"
      from go(3) res obtain cs1 where r1: "res1 = Inr cs1" and cs: "cs = c # cs1"
        by (cases res1) auto
      from mem cs consider "c = Some c'" | "Some c' \<in> set cs1" by auto
      then show "in_region gk c'"
      proof cases
        case 1 then show ?thesis by (rule head)
      next
        case 2 with r1 show ?thesis by (rule ih(2))
      qed
    qed
  qed
qed

lemma reachable_cache_in_region:
  "reachable_cache gk m \<Longrightarrow> cache_in_region gk m"
proof (induction rule: reachable_cache.induct)
  case no_file
  show ?case by (rule cache_in_region_empty)
next
  case (after_batch m geocode_fn rows w cs res st')
  from geocode_rows_in_region [OF after_batch(2)] after_batch(3)
  show ?case by simp
qed

lemma smart_geocode_far:
  assumes "cache st (address_key street house) = None"
    and "fst (geocode_fn (world st) (address_of street house)) = Returns (Some c)"
    and "\<not> in_region gk c"
  shows "fst (smart_geocode gk street house geocode_fn st) = Inr None"
    and "cache (snd (smart_geocode gk street house geocode_fn st)) (address_key street house)
           = Some None"
  using assms
  by (cases "geocode_fn (world st) (address_of street house)";
      simp add: smart_geocode_def Let_def in_region_def)+

section \<open>What reaches the map\<close>

lemma filter_df_subset:
  "filter_df df d_from d_to cats = Inr out \<Longrightarrow> set out \<subseteq> set df"
  by (auto simp: filter_df_def split: if_splits)

lemma located_in_region:
  assumes "\<forall>c. Some c \<in> set coords \<longrightarrow> in_region gk c"
    and "r \<in> set (dropna_coords (map (\<lambda>(r, c). with_coords r c) (zip df coords)))"
  shows "\<exists>c. lat r = Some (fst c) \<and> lon r = Some (snd c) \<and> in_region gk c"
proof -
  from assms(2) obtain r0 c0 where z: "(r0, c0) \<in> set (zip df coords)"
    and r: "r = with_coords r0 c0" and la: "lat r \<noteq> None"
    by (auto simp: dropna_coords_def)
  from r la obtain c where c0: "c0 = Some c" by (cases c0) (auto simp: with_coords_def)
  from z have "c0 \<in> set coords" by (rule set_zip_rightD)
  with assms(1) c0 have "in_region gk c" by blast
  with r c0 show ?thesis by (auto simp: with_coords_def)
qed

lemma generate_map_rendered_in_region:
  assumes run: "generate_map py_int parse loads dumps gk g fromiso raw_df d_from d_to cats files w
             = (Inr rendered, out)"
    and load: "load_cache loads GEOCACHE_FILE files = Inr m"
    and inv: "cache_in_region gk m"
    and mem: "r \<in> set rendered"
  shows "\<exists>c. lat r = Some (fst c) \<and> lon r = Some (snd c) \<and> in_region gk c"
proof -
  from run obtain df where prep: "prepare_rows py_int parse raw_df = Inr df"
    by (cases "prepare_rows py_int parse raw_df") (auto simp: generate_map_def)
  obtain res st where geo: "geocode_rows gk g df \<lparr>cache = m, world = w, calls = []\<rparr> = (res, st)"
    by (cases "geocode_rows gk g df \<lparr>cache = m, world = w, calls = []\<rparr>")
  from run prep load geo obtain coords where res: "res = Inr coords"
    by (cases res) (auto simp: generate_map_def)
  from run prep load geo res obtain a b where
    fl: "filter_df (dropna_coords (map (\<lambda>(r, c). with_coords r c) (zip df coords))) a b cats
           = Inr rendered"
    by (auto simp: generate_map_def Let_def split: option.splits)
  from inv have "cache_in_region gk (cache \<lparr>cache = m, world = w, calls = []\<rparr>)" by simp
  from geocode_rows_in_region [OF geo this] res
  have "\<forall>c. Some c \<in> set coords \<longrightarrow> in_region gk c" by blast
  moreover from filter_df_subset [OF fl] mem
  have "r \<in> set (dropna_coords (map (\<lambda>(r, c). with_coords r c) (zip df coords)))" by auto
  ultimately show ?thesis by (rule located_in_region)
qed

lemma prepare_sheet_rows:
  "prepare_rows py_int_fixture parse_fixture sheet_rows =
     Inr [\<lparr>col_street = Some ''Lenina'', col_house = Some ''5'', col_count = CountInt 7,
           col_date = DateTime 1749988800000000000, col_cat = Some COL_CAT_MISSING\<rparr>]"
  by (simp add: in_int64_def INT64_MIN_def prepare_rows_def sheet_rows_def notna_mask_def assign_street_def
      assign_house_def assign_count_def assign_date_def assign_cat_def astype_str_def
      str_of_def fillna_cat_def py_int_fixture_def parse_fixture_def)

lemma sheet_rows_rendered:
  "fst (generate_map py_int_fixture parse_fixture loads_fixture dumps_fixture flat_km
          lookup_centre iso_fixture sheet_rows ''2025-06-01'' ''2025-06-30'' None Map.empty 0)
     = Inr [lenina_located]"
  by (simp add: generate_map_def prepare_sheet_rows load_cache_def smart_geocode_def Let_def
      lookup_centre_def str_of_def flat_km_def MAX_DIST_KM_def with_coords_def
      dropna_coords_def iso_fixture_def filter_df_def is_text_def date_mask_def cat_mask_def
      Timestamp_def Timedelta_days_def Timedelta_seconds_def lenina_located_def)

text \<open>
  C2. Starting from any cache the program can hold, a coordinate outside the region is
  never returned by \<open>smart_geocode\<close>, never bound to a key in the cache, and never in a
  row handed to \<open>build_map\<close>; on a miss, a lookup result outside the region is
  returned and remembered as \<open>None\<close>.
\<close>

theorem out_of_region_never_used:
  assumes "reachable_cache gk m"
  shows "(smart_geocode gk street house f \<lparr>cache = m, world = w, calls = cs\<rparr> = (res, st') \<longrightarrow>
            (\<forall>c. res = Inr (Some c) \<longrightarrow> in_region gk c) \<and> cache_in_region gk (cache st')) \<and>
         (m (address_key street house) = None \<longrightarrow>
          fst (f w (address_of street house)) = Returns (Some far) \<longrightarrow> \<not> in_region gk far \<longrightarrow>
            fst (smart_geocode gk street house f \<lparr>cache = m, world = w, calls = cs\<rparr>) = Inr None \<and>
            cache (snd (smart_geocode gk street house f \<lparr>cache = m, world = w, calls = cs\<rparr>))
              (address_key street house) = Some None) \<and>
         (load_cache loads GEOCACHE_FILE files = Inr m \<longrightarrow>
          generate_map py_int parse loads dumps gk g fromiso raw_df d_from d_to cats files w0
            = (Inr rendered, out) \<longrightarrow>
            (\<forall>r \<in> set rendered.
               \<exists>c. lat r = Some (fst c) \<and> lon r = Some (snd c) \<and> in_region gk c))"
proof -
  from assms have inv: "cache_in_region gk m" by (rule reachable_cache_in_region)
  have one: "(\<forall>c. res = Inr (Some c) \<longrightarrow> in_region gk c) \<and> cache_in_region gk (cache st')"
    if run: "smart_geocode gk street house f \<lparr>cache = m, world = w, calls = cs\<rparr> = (res, st')"
  proof -
    from inv have "cache_in_region gk (cache \<lparr>cache = m, world = w, calls = cs\<rparr>)" by simp
    from smart_geocode_in_region [OF run this] show ?thesis by blast
  qed
  have two: "fst (smart_geocode gk street house f \<lparr>cache = m, world = w, calls = cs\<rparr>) = Inr None \<and>
      cache (snd (smart_geocode gk street house f \<lparr>cache = m, world = w, calls = cs\<rparr>))
        (address_key street house) = Some None"
    if "m (address_key street house) = None"
      "fst (f w (address_of street house)) = Returns (Some far)" "\<not> in_region gk far"
    using that
      smart_geocode_far [of "\<lparr>cache = m, world = w, calls = cs\<rparr>" street house f far gk]
    by simp
  have three: "\<forall>r \<in> set rendered.
               \<exists>c. lat r = Some (fst c) \<and> lon r = Some (snd c) \<and> in_region gk c"
    if "load_cache loads GEOCACHE_FILE files = Inr m"
      "generate_map py_int parse loads dumps gk g fromiso raw_df d_from d_to cats files w0
            = (Inr rendered, out)"
    using generate_map_rendered_in_region [OF that(2) that(1) inv] by blast
  from one two three show ?thesis by blast
qed

theorem out_of_region_never_used_witness:
  "reachable_cache flat_km Map.empty \<and>
   load_cache loads_fixture GEOCACHE_FILE Map.empty = Inr Map.empty \<and>
   fst (generate_map py_int_fixture parse_fixture loads_fixture dumps_fixture flat_km
          lookup_centre iso_fixture sheet_rows ''2025-06-01'' ''2025-06-30'' None Map.empty 0)
     = Inr [lenina_located] \<and>
   (\<exists>c. lat lenina_located = Some (fst c) \<and> lon lenina_located = Some (snd c) \<and>
        in_region flat_km c) \<and>
   fst (lookup_far (0::nat) (address_of ''Lenina'' ''5'')) = Returns (Some (0, 0)) \<and>
   \<not> in_region flat_km (0, 0) \<and>
   fst (smart_geocode flat_km ''Lenina'' ''5'' lookup_far
          \<lparr>cache = Map.empty, world = 0, calls = []\<rparr>) = Inr None \<and>
   cache (snd (smart_geocode flat_km ''Lenina'' ''5'' lookup_far
          \<lparr>cache = Map.empty, world = 0, calls = []\<rparr>)) (address_key ''Lenina'' ''5'')
     = Some None"
proof -
  have reach: "reachable_cache flat_km Map.empty" by (rule reachable_cache.no_file)
  have load: "load_cache loads_fixture GEOCACHE_FILE Map.empty = Inr Map.empty"
    by (simp add: load_cache_def)
  have far: "fst (lookup_far (0::nat) (address_of ''Lenina'' ''5'')) = Returns (Some (0, 0))"
    "\<not> in_region flat_km (0, 0)"
    by (simp_all add: lookup_far_def in_region_def flat_km_def CENTER_def MAX_DIST_KM_def)
  have run: "generate_map py_int_fixture parse_fixture loads_fixture dumps_fixture flat_km
          lookup_centre iso_fixture sheet_rows ''2025-06-01'' ''2025-06-30'' None Map.empty 0
     = (Inr [lenina_located],
        snd (generate_map py_int_fixture parse_fixture loads_fixture dumps_fixture flat_km
          lookup_centre iso_fixture sheet_rows ''2025-06-01'' ''2025-06-30'' None Map.empty 0))"
    using sheet_rows_rendered by (simp add: prod_eq_iff)
  note inst = out_of_region_never_used [OF reach, of "''Lenina''" "''5''" lookup_far 0 "[]"
      _ _ "(0, 0)" loads_fixture Map.empty py_int_fixture parse_fixture dumps_fixture
      lookup_centre iso_fixture sheet_rows "''2025-06-01''" "''2025-06-30''" None 0
      "[lenina_located]"]
  from inst load run far reach sheet_rows_rendered show ?thesis
    by simp
qed

section \<open>The date filter\<close>

lemma filter_df_total:
  "\<forall>r \<in> set df. \<not> is_text (col_date r) \<Longrightarrow>
     filter_df df date_from date_to cats =
       Inr (filter (\<lambda>r. date_mask date_from date_to (col_date r) \<and> cat_mask cats (col_cat r)) df)"
  by (simp add: filter_df_def list_ex_iff)

lemma date_mask_end_of_day:
  "date_from \<le> date_to \<Longrightarrow>
     date_mask date_from date_to (DateTime (Timestamp date_to + Timedelta_seconds 86399))"
  by (simp add: date_mask_def Timestamp_def Timedelta_days_def Timedelta_seconds_def)

lemma date_mask_next_midnight:
  "\<not> date_mask date_from date_to (DateTime (Timestamp (date_to + 1)))"
  by (simp add: date_mask_def Timestamp_def Timedelta_days_def Timedelta_seconds_def
      algebra_simps)

lemma date_mask_first_midnight:
  "date_from \<le> date_to \<Longrightarrow> date_mask date_from date_to (DateTime (Timestamp date_from))"
  by (simp add: date_mask_def Timestamp_def Timedelta_days_def Timedelta_seconds_def)

text \<open>
  C8. On a frame whose dates are timestamps, for a range with \<open>date_from \<le> date_to\<close>:
  a row of the frame stamped 23:59:59 on \<open>date_to\<close>, and one stamped 00:00:00 on
  \<open>date_from\<close>, is kept whenever its category passes the category filter; a row stamped
  00:00:00 on the day after \<open>date_to\<close> is never kept.
\<close>

theorem filter_df_inclusive:
  assumes "\<forall>r \<in> set df. \<not> is_text (col_date r)"
  shows "\<exists>out. filter_df df date_from date_to cats = Inr out \<and>
           (r \<in> set df \<longrightarrow> date_from \<le> date_to \<longrightarrow> cat_mask cats (col_cat r) \<longrightarrow>
              col_date r = DateTime (Timestamp date_to + Timedelta_seconds 86399) \<longrightarrow>
              r \<in> set out) \<and>
           (r \<in> set df \<longrightarrow> date_from \<le> date_to \<longrightarrow> cat_mask cats (col_cat r) \<longrightarrow>
              col_date r = DateTime (Timestamp date_from) \<longrightarrow> r \<in> set out) \<and>
           (col_date r = DateTime (Timestamp (date_to + 1)) \<longrightarrow> r \<notin> set out)"
proof -
  let ?out = "filter (\<lambda>r. date_mask date_from date_to (col_date r) \<and> cat_mask cats (col_cat r)) df"
  have run: "filter_df df date_from date_to cats = Inr ?out"
    using assms by (rule filter_df_total)
  have hi: "r \<in> set ?out" if "r \<in> set df" "date_from \<le> date_to" "cat_mask cats (col_cat r)"
    "col_date r = DateTime (Timestamp date_to + Timedelta_seconds 86399)"
    using that date_mask_end_of_day [of date_from date_to] by simp
  have lo: "r \<in> set ?out" if "r \<in> set df" "date_from \<le> date_to" "cat_mask cats (col_cat r)"
    "col_date r = DateTime (Timestamp date_from)"
    using that date_mask_first_midnight [of date_from date_to] by simp
  have next_day: "r \<notin> set ?out" if "col_date r = DateTime (Timestamp (date_to + 1))"
    using that date_mask_next_midnight [of date_from date_to] by simp
  from run hi lo next_day show ?thesis by blast
qed

theorem filter_df_inclusive_witness:
  "\<not> is_text (col_date row_last_second) \<and> \<not> is_text (col_date row_next_midnight) \<and>
   filter_df boundary_rows 20240 20269 (Some [''water'']) = Inr [row_last_second] \<and>
   row_last_second \<in> set boundary_rows \<and> (20240::int) \<le> 20269 \<and>
   cat_mask (Some [''water'']) (col_cat row_last_second) \<and>
   col_date row_last_second = DateTime (Timestamp 20269 + Timedelta_seconds 86399) \<and>
   col_date row_next_midnight = DateTime (Timestamp (20269 + 1)) \<and>
   row_next_midnight \<in> set boundary_rows"
proof -
  have typed: "\<forall>r \<in> set boundary_rows. \<not> is_text (col_date r)"
    by (simp add: boundary_rows_def row_last_second_def row_next_midnight_def is_text_def)
  have facts: "row_last_second \<in> set boundary_rows" "(20240::int) \<le> 20269"
    "cat_mask (Some [''water'']) (col_cat row_last_second)"
    "col_date row_last_second = DateTime (Timestamp 20269 + Timedelta_seconds 86399)"
    "col_date row_next_midnight = DateTime (Timestamp (20269 + 1))"
    "row_next_midnight \<in> set boundary_rows"
    by (simp_all add: boundary_rows_def row_last_second_def row_next_midnight_def cat_mask_def
        Timestamp_def Timedelta_days_def Timedelta_seconds_def)
  from filter_df_inclusive [OF typed, of 20240 20269 "Some [''water'']" row_last_second]
  obtain out where out: "filter_df boundary_rows 20240 20269 (Some [''water'']) = Inr out"
    "row_last_second \<in> set out"
    using facts by blast
  from filter_df_inclusive [OF typed, of 20240 20269 "Some [''water'']" row_next_midnight]
  have "row_next_midnight \<notin> set out"
    using facts out(1) by auto
  with out have "out = [row_last_second]"
    by (auto simp: filter_df_def boundary_rows_def split: if_splits)
  with out typed facts show ?thesis by (simp add: boundary_rows_def)
qed

section \<open>Columns that fail to convert\<close>

lemma collect_Inl:
  "Inl e \<in> set xs \<Longrightarrow> \<exists>e'. collect xs = Inl e'"
proof (induction xs)
  case Nil
  then show ?case by simp
next
  case (Cons x xs)
  then show ?case by (cases x; cases "collect xs") auto
qed

lemma collect_Inr:
  "collect xs = Inr vs \<Longrightarrow> xs = map Inr vs"
proof (induction xs arbitrary: vs)
  case Nil
  then show ?case by simp
next
  case (Cons x xs)
  then show ?case by (cases x; cases "collect xs") auto
qed

lemma collect_all_Inr:
  "\<forall>x \<in> set xs. \<exists>v. x = Inr v \<Longrightarrow> \<exists>vs. collect xs = Inr vs"
proof (induction xs)
  case Nil
  then show ?case by simp
next
  case (Cons x xs)
  then show ?case by (cases x; cases "collect xs") auto
qed

lemma collect_error:
  "collect xs = Inl e \<Longrightarrow> Inl e \<in> set xs"
proof (induction xs)
  case Nil
  then show ?case by simp
next
  case (Cons x xs)
  then show ?case by (cases x; cases "collect xs") auto
qed

lemma assign_count_Inr:
  assumes "assign_count py_int df = Inr out"
  shows "length out = length df"
    and "i < length df \<Longrightarrow>
           fillna0_astype_int py_int (col_count (df ! i)) = Inr (col_count (out ! i)) \<and>
           col_date (out ! i) = col_date (df ! i)"
proof -
  from assms obtain col where col: "collect (map (\<lambda>r. fillna0_astype_int py_int (col_count r)) df) = Inr col"
    and out: "out = map (\<lambda>(r, c). r\<lparr>col_count := c\<rparr>) (zip df col)"
    by (auto simp: assign_count_def split: sum.splits)
  from collect_Inr [OF col]
  have m: "map (\<lambda>r. fillna0_astype_int py_int (col_count r)) df = map Inr col" .
  then have len: "length col = length df" by (metis length_map)
  with out show "length out = length df" by simp
  assume i: "i < length df"
  from m i len have "fillna0_astype_int py_int (col_count (df ! i)) = Inr (col ! i)"
    by (metis nth_map)
  with out i len
  show "fillna0_astype_int py_int (col_count (df ! i)) = Inr (col_count (out ! i)) \<and>
           col_date (out ! i) = col_date (df ! i)"
    by simp
qed

lemma assign_date_Inr:
  assumes "assign_date parse df = Inr out"
  shows "length out = length df"
    and "i < length df \<Longrightarrow>
           to_datetime parse (col_date (df ! i)) = Inr (col_date (out ! i)) \<and>
           col_count (out ! i) = col_count (df ! i)"
proof -
  from assms obtain col where col: "collect (map (\<lambda>r. to_datetime parse (col_date r)) df) = Inr col"
    and out: "out = map (\<lambda>(r, c). r\<lparr>col_date := c\<rparr>) (zip df col)"
    by (auto simp: assign_date_def split: sum.splits)
  from collect_Inr [OF col]
  have m: "map (\<lambda>r. to_datetime parse (col_date r)) df = map Inr col" .
  then have len: "length col = length df" by (metis length_map)
  with out show "length out = length df" by simp
  assume i: "i < length df"
  from m i len have "to_datetime parse (col_date (df ! i)) = Inr (col ! i)"
    by (metis nth_map)
  with out i len
  show "to_datetime parse (col_date (df ! i)) = Inr (col_date (out ! i)) \<and>
           col_count (out ! i) = col_count (df ! i)"
    by simp
qed

lemma assign_date_bad_cell:
  assumes "r \<in> set df" and "col_date r = DateText s" and "parse s = None"
  shows "assign_date parse df = Inl DateNotParsed"
proof -
  from assms have "Inl DateNotParsed \<in> set (map (\<lambda>r. to_datetime parse (col_date r)) df)"
    by (force simp: image_iff)
  then obtain e where e: "collect (map (\<lambda>r. to_datetime parse (col_date r)) df) = Inl e"
    using collect_Inl by blast
  have "e = DateNotParsed"
  proof -
    from collect_error [OF e]
    have "\<exists>r \<in> set df. Inl e = to_datetime parse (col_date r)"
      by (simp add: image_iff)
    then obtain r' :: row where "to_datetime parse (col_date r') = Inl e" by metis
    then show ?thesis
      by (cases "col_date r'") (auto split: option.splits)
  qed
  with e show ?thesis by (simp add: assign_date_def)
qed

lemma assign_count_error:
  "assign_count py_int df = Inl e \<Longrightarrow> e = CountNotInt"
proof -
  assume a: "assign_count py_int df = Inl e"
  then have "collect (map (\<lambda>r. fillna0_astype_int py_int (col_count r)) df) = Inl e"
    by (auto simp: assign_count_def split: sum.splits)
  from collect_error [OF this]
  have "\<exists>r \<in> set df. Inl e = fillna0_astype_int py_int (col_count r)"
    by (simp add: image_iff)
  then obtain r :: row where "fillna0_astype_int py_int (col_count r) = Inl e" by metis
  then show ?thesis by (cases "col_count r") (auto split: option.splits if_splits)
qed

lemma fillna0_astype_int_Inr:
  "fillna0_astype_int py_int c = Inr v \<Longrightarrow> \<exists>n. v = CountInt n \<and> in_int64 n"
  by (cases c) (auto simp: in_int64_def INT64_MIN_def split: option.splits if_splits)

lemma prepare_rows_Inr:
  assumes "prepare_rows py_int parse raw_df = Inr out"
  obtains with_count with_date where
    "assign_count py_int (assign_house (assign_street (filter notna_mask raw_df))) = Inr with_count"
    "assign_date parse with_count = Inr with_date"
    "out = assign_cat with_date"
proof -
  from assms obtain wc where
    wc: "assign_count py_int (assign_house (assign_street (filter notna_mask raw_df))) = Inr wc"
    by (cases "assign_count py_int (assign_house (assign_street (filter notna_mask raw_df)))")
      (auto simp: prepare_rows_def)
  from assms wc obtain wd where wd: "assign_date parse wc = Inr wd"
    by (cases "assign_date parse wc") (auto simp: prepare_rows_def)
  from assms wc wd have "out = assign_cat wd" by (simp add: prepare_rows_def)
  with wc wd that show ?thesis by blast
qed

section \<open>A date that cannot be parsed\<close>

text \<open>
  C6 (as the code has it). A row with a street and a house whose date is a text that
  \<open>pd.to_datetime\<close> cannot parse makes \<open>prepare_dataframe\<close> raise (for that date, or
  before it for a count that is no integer), and \<open>generate_map\<close> ends with that error
  before the cache is loaded: no row is excluded or counted, no lookup is made, the
  files are as they were and nothing is handed to \<open>build_map\<close>.
\<close>

theorem unparseable_date_aborts:
  assumes "r \<in> set raw_df" and "notna_mask r" and "col_date r = DateText s"
    and "parse s = None"
  shows "(prepare_rows py_int parse raw_df = Inl DateNotParsed \<or>
          prepare_rows py_int parse raw_df = Inl CountNotInt) \<and>
         (\<exists>e. generate_map py_int parse loads dumps gk g fromiso raw_df d_from d_to cats files w
                = (Inl e, files, w, []))"
proof -
  let ?df0 = "filter notna_mask raw_df"
  let ?df1 = "assign_house (assign_street ?df0)"
  let ?r1 = "r\<lparr>col_street := astype_str (col_street r), col_house := astype_str (col_house r)\<rparr>"
  from assms(1,2) have "r \<in> set ?df0" by simp
  then have r1: "?r1 \<in> set ?df1"
    by (force simp: assign_house_def assign_street_def image_iff)
  have prep: "prepare_rows py_int parse raw_df = Inl DateNotParsed \<or>
          prepare_rows py_int parse raw_df = Inl CountNotInt"
  proof (cases "assign_count py_int ?df1")
    case (Inl e)
    then have "e = CountNotInt" by (rule assign_count_error)
    with Inl show ?thesis by (simp add: prepare_rows_def)
  next
    case (Inr wc)
    from r1 obtain i where i: "i < length ?df1" "?df1 ! i = ?r1"
      by (auto simp: in_set_conv_nth)
    from assign_count_Inr(1) [OF Inr] have len: "length wc = length ?df1" .
    from assign_count_Inr(2) [OF Inr i(1)] i(2) have "col_date (wc ! i) = col_date ?r1"
      by simp
    with assms(3) have "col_date (wc ! i) = DateText s" by simp
    moreover from i(1) len have "wc ! i \<in> set wc" by simp
    ultimately have "assign_date parse wc = Inl DateNotParsed"
      using assms(4) by (intro assign_date_bad_cell [of "wc ! i" wc s parse])
    with Inr show ?thesis by (simp add: prepare_rows_def)
  qed
  then obtain e where "prepare_rows py_int parse raw_df = Inl e" by blast
  then have "generate_map py_int parse loads dumps gk g fromiso raw_df d_from d_to cats files w
                = (Inl e, files, w, [])"
    by (simp add: generate_map_def)
  with prep show ?thesis by blast
qed

lemma prepare_bad_date_rows:
  "prepare_rows py_int_fixture parse_fixture bad_date_rows = Inl DateNotParsed"
  by (simp add: in_int64_def INT64_MIN_def prepare_rows_def bad_date_rows_def notna_mask_def assign_street_def
      assign_house_def assign_count_def assign_date_def astype_str_def str_of_def
      parse_fixture_def)

theorem unparseable_date_aborts_witness:
  "bad_date_rows ! 1 \<in> set bad_date_rows \<and> notna_mask (bad_date_rows ! 1) \<and>
   col_date (bad_date_rows ! 1) = DateText ''soon'' \<and> parse_fixture ''soon'' = None \<and>
   prepare_rows py_int_fixture parse_fixture bad_date_rows = Inl DateNotParsed \<and>
   (\<exists>e. generate_map py_int_fixture parse_fixture loads_fixture dumps_fixture flat_km
          lookup_centre iso_fixture bad_date_rows ''2025-06-01'' ''2025-06-30'' None
          Map.empty (0::nat) = (Inl e, Map.empty, 0, []))"
proof -
  have h: "bad_date_rows ! 1 \<in> set bad_date_rows" "notna_mask (bad_date_rows ! 1)"
    "col_date (bad_date_rows ! 1) = DateText ''soon''" "parse_fixture ''soon'' = None"
    by (simp_all add: bad_date_rows_def notna_mask_def parse_fixture_def)
  from unparseable_date_aborts [where r = "bad_date_rows ! 1" and raw_df = bad_date_rows
      and s = "''soon''" and parse = parse_fixture and py_int = py_int_fixture
      and loads = loads_fixture and dumps = dumps_fixture and gk = flat_km
      and g = lookup_centre and fromiso = iso_fixture and d_from = "''2025-06-01''"
      and d_to = "''2025-06-30''" and cats = None and files = Map.empty and w = "0::nat",
      OF h]
    h prepare_bad_date_rows
  show ?thesis by simp
qed

text \<open>
  C6 as the specification states it fails: with one good row and one row whose date is
  no date, nothing is prepared and the run ends with the error, so the good row is lost
  with the bad one and nothing is counted.
\<close>

theorem unparseable_date_counterexample:
  "prepare_rows py_int_fixture parse_fixture bad_date_rows = Inl DateNotParsed \<and>
   generate_map py_int_fixture parse_fixture loads_fixture dumps_fixture flat_km
     lookup_centre iso_fixture bad_date_rows ''2025-06-01'' ''2025-06-30'' None
     Map.empty (0::nat) = (Inl DateNotParsed, Map.empty, 0, [])"
  by (simp add: generate_map_def prepare_bad_date_rows)

section \<open>The count column\<close>

text \<open>
  C7 (as the code has it). Every row that \<open>prepare_dataframe\<close> returns has a 64-bit
  integer count: 0 where the count was missing, the integer itself where it was an
  integer, the number a text spells, a float truncated towards zero where that fits
  64 bits and, for a cell of a float column, the least 64-bit integer where it does
  not. Nothing makes it non-negative: a negative count stays negative.
\<close>

theorem prepared_count_is_int:
  assumes "prepare_rows py_int parse raw_df = Inr out"
  shows "length out = length (filter notna_mask raw_df) \<and>
         (\<forall>i < length out.
            \<exists>n. col_count (out ! i) = CountInt n \<and> in_int64 n \<and>
                (col_count (filter notna_mask raw_df ! i) = CountNaN \<longrightarrow> n = 0) \<and>
                (\<forall>k. col_count (filter notna_mask raw_df ! i) = CountInt k \<longrightarrow> n = k) \<and>
                (\<forall>s. col_count (filter notna_mask raw_df ! i) = CountText s \<longrightarrow>
                   py_int s = Some n) \<and>
                (\<forall>x. col_count (filter notna_mask raw_df ! i) = CountPyFloat x \<longrightarrow>
                   n = trunc x) \<and>
                (\<forall>x. col_count (filter notna_mask raw_df ! i) = CountFloat x \<longrightarrow>
                   n = (if in_int64 (trunc x) then trunc x else INT64_MIN)))"
proof -
  let ?df0 = "filter notna_mask raw_df"
  let ?df1 = "assign_house (assign_street ?df0)"
  from assms obtain wc wd where wc: "assign_count py_int ?df1 = Inr wc"
    and wd: "assign_date parse wc = Inr wd" and out: "out = assign_cat wd"
    by (rule prepare_rows_Inr)
  have l1: "length ?df1 = length ?df0" by (simp add: assign_house_def assign_street_def)
  from assign_count_Inr(1) [OF wc] have l2: "length wc = length ?df1" .
  from assign_date_Inr(1) [OF wd] have l3: "length wd = length wc" .
  from out have l4: "length out = length wd" by (simp add: assign_cat_def)
  have cell: "\<exists>n. col_count (out ! i) = CountInt n \<and> in_int64 n \<and>
                (col_count (?df0 ! i) = CountNaN \<longrightarrow> n = 0) \<and>
                (\<forall>k. col_count (?df0 ! i) = CountInt k \<longrightarrow> n = k) \<and>
                (\<forall>s. col_count (?df0 ! i) = CountText s \<longrightarrow> py_int s = Some n) \<and>
                (\<forall>x. col_count (?df0 ! i) = CountPyFloat x \<longrightarrow> n = trunc x) \<and>
                (\<forall>x. col_count (?df0 ! i) = CountFloat x \<longrightarrow>
                   n = (if in_int64 (trunc x) then trunc x else INT64_MIN))"
    if i: "i < length out" for i
  proof -
    from i l1 l2 l3 l4 have i': "i < length ?df0" "i < length ?df1" "i < length wc" "i < length wd"
      by simp_all
    from out i'(4) have "col_count (out ! i) = col_count (wd ! i)"
      by (simp add: assign_cat_def)
    also from assign_date_Inr(2) [OF wd i'(3)]
    have "col_count (wd ! i) = col_count (wc ! i)" by simp
    finally have a: "col_count (out ! i) = col_count (wc ! i)" .
    from i'(1) have b: "col_count (?df1 ! i) = col_count (?df0 ! i)"
      by (simp add: assign_house_def assign_street_def)
    from assign_count_Inr(2) [OF wc i'(2)] a b
    have conv: "fillna0_astype_int py_int (col_count (?df0 ! i)) = Inr (col_count (out ! i))"
      by simp
    then obtain n where n: "col_count (out ! i) = CountInt n" "in_int64 n"
      using fillna0_astype_int_Inr by blast
    with conv show ?thesis
      by (cases "col_count (?df0 ! i)") (auto split: option.splits if_splits)
  qed
  from l1 l2 l3 l4 cell show ?thesis by simp
qed

lemma prepare_count_rows:
  "prepare_rows py_int_fixture parse_fixture count_rows = Inr counted_rows"
  by (simp add: in_int64_def INT64_MIN_def prepare_rows_def count_rows_def counted_rows_def notna_mask_def
      assign_street_def assign_house_def assign_count_def assign_date_def assign_cat_def
      astype_str_def str_of_def fillna_cat_def py_int_fixture_def trunc_def)

theorem prepared_count_is_int_witness:
  "prepare_rows py_int_fixture parse_fixture count_rows = Inr counted_rows \<and>
   length counted_rows = length (filter notna_mask count_rows) \<and>
   (0::nat) < length counted_rows \<and>
   col_count (filter notna_mask count_rows ! 0) = CountNaN \<and>
   col_count (counted_rows ! 0) = CountInt 0 \<and>
   map col_count counted_rows =
     [CountInt 0, CountInt 4, CountInt 2, CountInt (- 2), CountInt 7,
      CountInt (- 9223372036854775808)]"
proof -
  have len: "(0::nat) < length counted_rows" by (simp add: counted_rows_def)
  have nan: "col_count (filter notna_mask count_rows ! 0) = CountNaN"
    by (simp add: count_rows_def notna_mask_def)
  have cells: "map col_count counted_rows =
      [CountInt 0, CountInt 4, CountInt 2, CountInt (- 2), CountInt 7,
       CountInt (- 9223372036854775808)]"
    by (simp add: counted_rows_def)
  from prepared_count_is_int [OF prepare_count_rows]
  have len_eq: "length counted_rows = length (filter notna_mask count_rows)" by blast
  from prepared_count_is_int [OF prepare_count_rows] len
  obtain n where "col_count (counted_rows ! 0) = CountInt n"
    "col_count (filter notna_mask count_rows ! 0) = CountNaN \<longrightarrow> n = 0"
    by blast
  with nan have "col_count (counted_rows ! 0) = CountInt 0" by simp
  with prepare_count_rows len_eq len nan cells show ?thesis by simp
qed

text \<open>
  C7 as the specification states it fails: a count of \<open>-5\<close> comes out of the
  preparation as \<open>-5\<close>.
\<close>

theorem negative_count_counterexample:
  "prepare_rows py_int_fixture parse_fixture negative_count_rows = Inr negative_count_rows \<and>
   map col_count negative_count_rows = [CountInt (- 5)]"
  by (simp add: in_int64_def INT64_MIN_def prepare_rows_def negative_count_rows_def notna_mask_def assign_street_def
      assign_house_def assign_count_def assign_date_def assign_cat_def astype_str_def
      str_of_def fillna_cat_def)

section \<open>The argument of the preparation\<close>

lemma prepare_dataframe_unfold:
  assumes "df_raw < length heap"
  shows "prepare_dataframe py_int parse heap df_raw =
     (let h = heap @ [heap ! df_raw, assign_house (assign_street (filter notna_mask (heap ! df_raw)))];
          df = Suc (length heap)
      in case assign_count py_int (assign_house (assign_street (filter notna_mask (heap ! df_raw)))) of
           Inl e \<Rightarrow> (Inl e, h)
         | Inr with_count \<Rightarrow>
             (case assign_date parse with_count of
                Inl e \<Rightarrow> (Inl e, h[df := with_count])
              | Inr with_date \<Rightarrow> (Inr df, h[df := assign_cat with_date])))"
  using assms
  by (simp add: prepare_dataframe_def Let_def nth_append list_update_append
      split: sum.splits)

lemma prepare_dataframe_frame:
  assumes "prepare_dataframe py_int parse heap df_raw = (res, heap')"
  shows "length heap \<le> length heap'" and "ref < length heap \<Longrightarrow> heap' ! ref = heap ! ref"
proof -
  have "length heap \<le> length heap' \<and> (ref < length heap \<longrightarrow> heap' ! ref = heap ! ref)"
  proof (cases "df_raw < length heap")
    case False
    with assms show ?thesis by (simp add: prepare_dataframe_def)
  next
    case True
    from assms show ?thesis
      unfolding prepare_dataframe_unfold [OF True] Let_def
      by (auto simp: nth_append split: sum.splits)
  qed
  then show "length heap \<le> length heap'" and "ref < length heap \<Longrightarrow> heap' ! ref = heap ! ref"
    by simp_all
qed

lemma prepare_dataframe_result:
  assumes "prepare_dataframe py_int parse heap df_raw = (res, heap')" and "df_raw < length heap"
  shows "case res of
           Inl e \<Rightarrow> prepare_rows py_int parse (heap ! df_raw) = Inl e
         | Inr df \<Rightarrow> length heap \<le> df \<and> df < length heap' \<and>
                     prepare_rows py_int parse (heap ! df_raw) = Inr (heap' ! df)"
  using assms(1)
  unfolding prepare_dataframe_unfold [OF assms(2)] Let_def prepare_rows_def
  by (auto simp: nth_append split: sum.splits)

text \<open>
  C10. \<open>prepare_dataframe\<close> leaves every frame that existed before the call as it was,
  the frame of its argument among them, whether it returns or raises; the frame it
  returns is a new one, and holds the prepared rows.
\<close>

theorem prepare_dataframe_keeps_argument:
  assumes "prepare_dataframe py_int parse heap df_raw = (res, heap')"
    and "df_raw < length heap"
  shows "heap' ! df_raw = heap ! df_raw \<and>
         (\<forall>ref < length heap. heap' ! ref = heap ! ref) \<and>
         (\<forall>df. res = Inr df \<longrightarrow> df \<noteq> df_raw \<and> df < length heap' \<and>
            prepare_rows py_int parse (heap ! df_raw) = Inr (heap' ! df))"
proof (intro conjI allI impI)
  show "heap' ! df_raw = heap ! df_raw"
    using assms by (rule prepare_dataframe_frame(2))
next
  fix ref
  assume "ref < length heap"
  with assms(1) show "heap' ! ref = heap ! ref" by (rule prepare_dataframe_frame(2))
next
  fix df
  assume r: "res = Inr df"
  from prepare_dataframe_result [OF assms] r
  have *: "length heap \<le> df" "df < length heap'"
    "prepare_rows py_int parse (heap ! df_raw) = Inr (heap' ! df)"
    by simp_all
  from *(1) assms(2) show "df \<noteq> df_raw" by simp
  from * show "df < length heap'" "prepare_rows py_int parse (heap ! df_raw) = Inr (heap' ! df)"
    by simp_all
qed

lemma prepare_count_rows_heap:
  "prepare_dataframe py_int_fixture parse_fixture [count_rows] 0 =
     (Inr 2, [count_rows, count_rows, counted_rows])"
  by (simp add: in_int64_def INT64_MIN_def prepare_dataframe_def Let_def count_rows_def counted_rows_def notna_mask_def
      assign_street_def assign_house_def assign_count_def assign_date_def assign_cat_def
      astype_str_def str_of_def fillna_cat_def py_int_fixture_def trunc_def)

theorem prepare_dataframe_keeps_argument_witness:
  "prepare_dataframe py_int_fixture parse_fixture [count_rows] 0 =
     (Inr 2, [count_rows, count_rows, counted_rows]) \<and>
   (0::nat) < length [count_rows] \<and>
   [count_rows, count_rows, counted_rows] ! 0 = [count_rows] ! 0 \<and>
   (2::nat) \<noteq> 0 \<and>
   prepare_rows py_int_fixture parse_fixture ([count_rows] ! 0) =
     Inr ([count_rows, count_rows, counted_rows] ! 2)"
proof -
  have valid: "(0::nat) < length [count_rows]" by simp
  from prepare_dataframe_keeps_argument [OF prepare_count_rows_heap valid]
    prepare_count_rows_heap valid
  show ?thesis by simp
qed

section \<open>Saving and loading the cache\<close>

lemma save_cache_complete:
  "save_cache dumps m path files = files(path \<mapsto> dumps m)"
  by (simp add: save_cache_def save_cache_upto_def)

text \<open>
  C9. Where unpickling the pickle of a store gives the store back, as \<open>pickle\<close> does,
  saving a store and loading from the same path gives that store; and loading from a
  path with no file gives the empty store, not an error.
\<close>

theorem load_after_save:
  "(loads (dumps m) = Some m \<longrightarrow>
      load_cache loads path (save_cache dumps m path files) = Inr m) \<and>
   (files path = None \<longrightarrow> load_cache loads path files = Inr Map.empty)"
  by (simp add: save_cache_complete load_cache_def)

theorem load_after_save_witness:
  "loads_fixture (dumps_fixture [''Lenina_5'' \<mapsto> None]) = Some [''Lenina_5'' \<mapsto> None] \<and>
   load_cache loads_fixture GEOCACHE_FILE
     (save_cache dumps_fixture [''Lenina_5'' \<mapsto> None] GEOCACHE_FILE Map.empty)
     = Inr [''Lenina_5'' \<mapsto> None] \<and>
   (Map.empty :: fs) GEOCACHE_FILE = None \<and>
   load_cache loads_fixture GEOCACHE_FILE Map.empty = Inr Map.empty"
proof -
  have rt: "loads_fixture (dumps_fixture [''Lenina_5'' \<mapsto> None]) = Some [''Lenina_5'' \<mapsto> None]"
    by (simp add: loads_fixture_def dumps_fixture_def pickle_empty_def pickle_lenina_none_def)
  have nofile: "(Map.empty :: fs) GEOCACHE_FILE = None" by simp
  from load_after_save [where loads = loads_fixture and dumps = dumps_fixture
      and m = "[''Lenina_5'' \<mapsto> None]" and path = GEOCACHE_FILE and files = Map.empty]
    rt nofile
  show ?thesis by blast
qed

section \<open>A save that is interrupted\<close>

text \<open>
  C5 (as the code has it). \<open>save_cache\<close> writes into the target file itself. A save that
  completes leaves there the whole pickle of the new store and touches no other file.
  A save that stops after the file was opened leaves there the part of the new pickle
  written so far, whatever the file held before: the store saved earlier survives
  only where it happens to be that very part.
\<close>

theorem save_cache_in_place:
  "save_cache dumps m path files path = Some (dumps m) \<and>
   (p \<noteq> path \<longrightarrow> save_cache_upto n dumps m path files p = files p) \<and>
   (0 < n \<longrightarrow> save_cache_upto n dumps m path files path = Some (take (n - 1) (dumps m))) \<and>
   (0 < n \<longrightarrow> files path = Some old \<longrightarrow>
      save_cache_upto n dumps m path files path = Some old \<longrightarrow>
      old = take (n - 1) (dumps m))"
  by (simp add: save_cache_complete save_cache_upto_def)

theorem save_cache_in_place_witness:
  "(0::nat) < 3 \<and> ''other.pkl'' \<noteq> GEOCACHE_FILE \<and>
   save_cache dumps_fixture [''Lenina_5'' \<mapsto> None] GEOCACHE_FILE
     [GEOCACHE_FILE \<mapsto> pickle_empty] GEOCACHE_FILE = Some pickle_lenina_none \<and>
   save_cache_upto 3 dumps_fixture [''Lenina_5'' \<mapsto> None] GEOCACHE_FILE
     [GEOCACHE_FILE \<mapsto> pickle_empty] ''other.pkl'' = None \<and>
   save_cache_upto 3 dumps_fixture [''Lenina_5'' \<mapsto> None] GEOCACHE_FILE
     [GEOCACHE_FILE \<mapsto> pickle_empty] GEOCACHE_FILE = Some [CHR 0x80, CHR 0x04]"
proof -
  have h: "(0::nat) < 3" "''other.pkl'' \<noteq> GEOCACHE_FILE"
    by (simp_all add: GEOCACHE_FILE_def)
  have d: "dumps_fixture [''Lenina_5'' \<mapsto> None] = pickle_lenina_none"
    by (simp add: dumps_fixture_def)
  from save_cache_in_place [where dumps = dumps_fixture and m = "[''Lenina_5'' \<mapsto> None]"
      and path = GEOCACHE_FILE and files = "[GEOCACHE_FILE \<mapsto> pickle_empty]"
      and p = "''other.pkl''" and n = 3] h d
  show ?thesis by (simp add: pickle_lenina_none_def)
qed

text \<open>
  C5 as the specification states it fails: the file holds the pickle of the empty store,
  a save of a store with one entry stops after two bytes, and the file then holds
  neither store: its two bytes are not the old pickle, not the new one, and do not
  unpickle.
\<close>

theorem save_cache_not_atomic_counterexample:
  "save_cache_upto 3 dumps_fixture [''Lenina_5'' \<mapsto> None] GEOCACHE_FILE
     [GEOCACHE_FILE \<mapsto> dumps_fixture Map.empty] GEOCACHE_FILE = Some [CHR 0x80, CHR 0x04] \<and>
   [CHR 0x80, CHR 0x04] \<noteq> dumps_fixture Map.empty \<and>
   [CHR 0x80, CHR 0x04] \<noteq> dumps_fixture [''Lenina_5'' \<mapsto> None] \<and>
   load_cache loads_fixture GEOCACHE_FILE
     (save_cache_upto 3 dumps_fixture [''Lenina_5'' \<mapsto> None] GEOCACHE_FILE
        [GEOCACHE_FILE \<mapsto> dumps_fixture Map.empty]) = Inl UnpicklingError \<and>
   save_cache_upto 1 dumps_fixture [''Lenina_5'' \<mapsto> None] GEOCACHE_FILE
     [GEOCACHE_FILE \<mapsto> dumps_fixture Map.empty] GEOCACHE_FILE = Some []"
  by (simp add: save_cache_upto_def dumps_fixture_def loads_fixture_def load_cache_def
      pickle_empty_def pickle_lenina_none_def)

section \<open>One lookup for each key, in a batch and in a run\<close>

lemma geocode_rows_one_lookup:
  assumes "geocode_rows gk f rows st = (res, st')"
  shows "length (calls_for k (calls st')) \<le> Suc (length (calls_for k (calls st))) \<and>
         (cache st k \<noteq> None \<longrightarrow> calls_for k (calls st') = calls_for k (calls st)) \<and>
         (\<forall>cs i j. res = Inr cs \<longrightarrow> i < length rows \<longrightarrow> j < length rows \<longrightarrow>
            row_key (rows ! i) = row_key (rows ! j) \<longrightarrow> cs ! i = cs ! j)"
proof (intro conjI impI allI)
  show "length (calls_for k (calls st')) \<le> Suc (length (calls_for k (calls st)))"
    using assms by (rule geocode_rows_calls_le)
next
  assume "cache st k \<noteq> None"
  then obtain v where "cache st k = Some v" by auto
  with assms show "calls_for k (calls st') = calls_for k (calls st)"
    by (rule geocode_rows_known_no_call)
next
  fix cs i j
  assume "res = Inr cs" "i < length rows" "j < length rows"
    "row_key (rows ! i) = row_key (rows ! j)"
  with assms show "cs ! i = cs ! j"
    by (intro geocode_rows_same_key [of gk f rows st cs st']) simp_all
qed

text \<open>What \<open>generate_map\<close> returns, by the step at which it ends.\<close>

lemma generate_map_cases:
  assumes run: "generate_map py_int parse loads dumps gk g fromiso raw_df d_from d_to cats files w
             = (gres, files', w', made)"
    and load: "load_cache loads GEOCACHE_FILE files = Inr m"
  obtains
    (unprepared) e where "prepare_rows py_int parse raw_df = Inl e" "gres = Inl e" "made = []"
  | (geocoded) df bres st where "prepare_rows py_int parse raw_df = Inr df"
      "geocode_rows gk g df \<lparr>cache = m, world = w, calls = []\<rparr> = (bres, st)"
      "made = calls st"
      "\<And>rendered. gres = Inr rendered \<Longrightarrow>
         \<exists>coords a b. bres = Inr coords \<and>
           filter_df (dropna_coords (map (\<lambda>(r, c). with_coords r c) (zip df coords))) a b cats
             = Inr rendered"
proof (cases "prepare_rows py_int parse raw_df")
  case (Inl e)
  with run have "gres = Inl e" "made = []" by (simp_all add: generate_map_def)
  with Inl show ?thesis by (rule unprepared)
next
  case (Inr df)
  obtain bres st where geo: "geocode_rows gk g df \<lparr>cache = m, world = w, calls = []\<rparr> = (bres, st)"
    by (cases "geocode_rows gk g df \<lparr>cache = m, world = w, calls = []\<rparr>")
  have made: "made = calls st"
    using run Inr load geo
    by (cases bres) (auto simp: generate_map_def Let_def split: option.splits)
  have out: "\<exists>coords a b. bres = Inr coords \<and>
           filter_df (dropna_coords (map (\<lambda>(r, c). with_coords r c) (zip df coords))) a b cats
             = Inr rendered" if "gres = Inr rendered" for rendered
    using run Inr load geo that
    by (cases bres) (auto simp: generate_map_def Let_def split: option.splits)
  from Inr geo made out show ?thesis by (rule geocoded)
qed

lemma row_key_with_coords: "row_key (with_coords r c) = row_key r"
  by (simp add: row_key_def with_coords_def)

lemma located_row_index:
  assumes "r \<in> set (dropna_coords (map (\<lambda>(r, c). with_coords r c) (zip df coords)))"
    and "length coords = length df"
  obtains i where "i < length df" "r = with_coords (df ! i) (coords ! i)"
proof -
  from assms(1) have "r \<in> set (map (\<lambda>(r, c). with_coords r c) (zip df coords))"
    by (simp add: dropna_coords_def)
  then obtain i where "i < length (zip df coords)"
    "r = (\<lambda>(r, c). with_coords r c) (zip df coords ! i)"
    by (auto simp: in_set_conv_nth)
  with assms(2) have "i < length df" "r = with_coords (df ! i) (coords ! i)" by simp_all
  then show ?thesis by (rule that)
qed

lemma generate_map_same_key:
  assumes run: "generate_map py_int parse loads dumps gk g fromiso raw_df d_from d_to cats files w
             = (Inr rendered, files', w', made)"
    and load: "load_cache loads GEOCACHE_FILE files = Inr m"
    and r1: "r1 \<in> set rendered" and r2: "r2 \<in> set rendered"
    and key: "row_key r1 = row_key r2"
  shows "lat r1 = lat r2 \<and> lon r1 = lon r2"
  using run load
proof (cases rule: generate_map_cases)
  case (unprepared e)
  then show ?thesis by simp
next
  case (geocoded df bres st)
  from geocoded(4) [OF refl] obtain coords a b where bres: "bres = Inr coords"
    and fl: "filter_df (dropna_coords (map (\<lambda>(r, c). with_coords r c) (zip df coords))) a b cats
             = Inr rendered"
    by blast
  from geocoded(2) bres
  have geo: "geocode_rows gk g df \<lparr>cache = m, world = w, calls = []\<rparr> = (Inr coords, st)"
    by simp
  then have len: "length coords = length df" by (rule geocode_rows_length)
  from filter_df_subset [OF fl] r1 r2
  have "r1 \<in> set (dropna_coords (map (\<lambda>(r, c). with_coords r c) (zip df coords)))"
    "r2 \<in> set (dropna_coords (map (\<lambda>(r, c). with_coords r c) (zip df coords)))"
    by auto
  then obtain i j where i: "i < length df" "r1 = with_coords (df ! i) (coords ! i)"
    and j: "j < length df" "r2 = with_coords (df ! j) (coords ! j)"
    using len by (meson located_row_index)
  from key i(2) j(2) have "row_key (df ! i) = row_key (df ! j)"
    by (simp add: row_key_with_coords)
  with geo i(1) j(1) have "coords ! i = coords ! j" by (rule geocode_rows_same_key)
  with i(2) j(2) show ?thesis by (simp add: with_coords_def)
qed

lemma generate_map_calls:
  assumes run: "generate_map py_int parse loads dumps gk g fromiso raw_df d_from d_to cats files w
             = (gres, files', w', made)"
    and load: "load_cache loads GEOCACHE_FILE files = Inr m"
  shows "length (calls_for k made) \<le> 1 \<and> (m k \<noteq> None \<longrightarrow> calls_for k made = [])"
  using run load
proof (cases rule: generate_map_cases)
  case (unprepared e)
  then show ?thesis by (simp add: calls_for_def)
next
  case (geocoded df bres st)
  from geocode_rows_one_lookup [OF geocoded(2), of k] geocoded(3)
  show ?thesis by (simp add: calls_for_def)
qed

text \<open>
  C3 (as the code has it). Rows are one address to the cache when their street and house
  give the same string \<open>f"{street}_{house}"\<close>, as written. In one batch, for every such
  key: at most one call of the lookup function is made for it, none when the key is
  already in the cache the batch starts from, and when the batch completes all rows
  with that key have the same result. So for a run of \<open>generate_map\<close> with the cache it
  loads from the cache file: at most one call for a key, none for a key of the loaded
  cache, and the same coordinates in all rendered rows with one key.
\<close>

theorem one_lookup_per_key:
  "(geocode_rows gk f rows st = (res, st') \<longrightarrow>
      length (calls_for k (calls st')) \<le> Suc (length (calls_for k (calls st))) \<and>
      (cache st k \<noteq> None \<longrightarrow> calls_for k (calls st') = calls_for k (calls st)) \<and>
      (\<forall>cs i j. res = Inr cs \<longrightarrow> i < length rows \<longrightarrow> j < length rows \<longrightarrow>
         row_key (rows ! i) = row_key (rows ! j) \<longrightarrow> cs ! i = cs ! j)) \<and>
   (load_cache loads GEOCACHE_FILE files = Inr m \<longrightarrow>
    generate_map py_int parse loads dumps gk g fromiso raw_df d_from d_to cats files w
      = (gres, files', w', made) \<longrightarrow>
      length (calls_for k made) \<le> 1 \<and>
      (m k \<noteq> None \<longrightarrow> calls_for k made = []) \<and>
      (\<forall>rendered r1 r2. gres = Inr rendered \<longrightarrow> r1 \<in> set rendered \<longrightarrow> r2 \<in> set rendered \<longrightarrow>
         row_key r1 = row_key r2 \<longrightarrow> lat r1 = lat r2 \<and> lon r1 = lon r2))"
proof (intro conjI impI allI)
  assume "geocode_rows gk f rows st = (res, st')"
  note batch = geocode_rows_one_lookup [OF this, of k]
  from batch show "length (calls_for k (calls st')) \<le> Suc (length (calls_for k (calls st)))"
    by blast
  { assume "cache st k \<noteq> None"
    with batch show "calls_for k (calls st') = calls_for k (calls st)" by blast }
  { fix cs i j
    assume "res = Inr cs" "i < length rows" "j < length rows"
      "row_key (rows ! i) = row_key (rows ! j)"
    with batch show "cs ! i = cs ! j" by blast }
next
  assume load: "load_cache loads GEOCACHE_FILE files = Inr m"
    and run: "generate_map py_int parse loads dumps gk g fromiso raw_df d_from d_to cats files w
      = (gres, files', w', made)"
  note made = generate_map_calls [OF run load, of k]
  from made show "length (calls_for k made) \<le> 1" by blast
  { assume "m k \<noteq> None"
    with made show "calls_for k made = []" by blast }
  { fix rendered r1 r2
    assume g: "gres = Inr rendered" and "r1 \<in> set rendered" "r2 \<in> set rendered"
      "row_key r1 = row_key r2"
    with run load show "lat r1 = lat r2" "lon r1 = lon r2"
      using generate_map_same_key [of py_int parse loads dumps gk g fromiso raw_df d_from d_to
          cats files w rendered files' w' made m r1 r2]
      by simp_all }
qed

lemma two_rows_prepared:
  "prepare_rows py_int_fixture parse_fixture two_rows = Inr two_rows"
  by (simp add: in_int64_def prepare_rows_def two_rows_def notna_mask_def assign_street_def
      assign_house_def assign_count_def assign_date_def assign_cat_def astype_str_def
      str_of_def fillna_cat_def)

lemma two_rows_geocoded:
  "geocode_rows flat_km lookup_centre two_rows \<lparr>cache = Map.empty, world = 0, calls = []\<rparr> =
     (Inr [Some CENTER, Some CENTER],
      \<lparr>cache = [''Lenina_5'' \<mapsto> Some CENTER], world = 1,
       calls = [(''Lenina_5'', ''Lenina, 5, Zelenodolsk, Respublika Tatarstan, Rossiya'')]\<rparr>)"
  using two_rows_run by (simp add: empty_state_def)

lemma two_rows_map:
  "generate_map py_int_fixture parse_fixture loads_fixture dumps_fixture flat_km
     lookup_centre iso_fixture two_rows ''2025-06-01'' ''2025-06-30'' None Map.empty 0 =
   (Inr [with_coords (two_rows ! 0) (Some CENTER), with_coords (two_rows ! 1) (Some CENTER)],
    save_cache dumps_fixture [''Lenina_5'' \<mapsto> Some CENTER] GEOCACHE_FILE Map.empty, 1,
    [(''Lenina_5'', ''Lenina, 5, Zelenodolsk, Respublika Tatarstan, Rossiya'')])"
  by (simp add: generate_map_def two_rows_prepared load_cache_def two_rows_geocoded Let_def
      iso_fixture_def)
    (simp add: two_rows_def with_coords_def dropna_coords_def filter_df_def is_text_def
      date_mask_def cat_mask_def Timestamp_def Timedelta_days_def Timedelta_seconds_def)

lemma two_rows_cached:
  "geocode_rows flat_km lookup_centre two_rows
     \<lparr>cache = [''Lenina_5'' \<mapsto> None], world = 0, calls = []\<rparr> =
     (Inr [None, None], \<lparr>cache = [''Lenina_5'' \<mapsto> None], world = 0, calls = []\<rparr>)"
  by (simp add: two_rows_def smart_geocode_def str_of_def address_key_def)

lemma two_rows_map_cached:
  "snd (snd (snd (generate_map py_int_fixture parse_fixture loads_fixture dumps_fixture flat_km
     lookup_centre iso_fixture two_rows ''2025-06-01'' ''2025-06-30'' None
     [GEOCACHE_FILE \<mapsto> pickle_lenina_none] 0))) = []"
  by (simp add: generate_map_def two_rows_prepared load_cache_def loads_fixture_def
      pickle_lenina_none_def pickle_empty_def two_rows_cached Let_def iso_fixture_def)

theorem one_lookup_per_key_witness:
  "geocode_rows flat_km lookup_centre two_rows empty_state =
     (Inr [Some CENTER, Some CENTER],
      \<lparr>cache = [''Lenina_5'' \<mapsto> Some CENTER], world = 1,
       calls = [(''Lenina_5'', ''Lenina, 5, Zelenodolsk, Respublika Tatarstan, Rossiya'')]\<rparr>) \<and>
   row_key (two_rows ! 0) = row_key (two_rows ! 1) \<and>
   length (calls_for ''Lenina_5''
     [(''Lenina_5'', ''Lenina, 5, Zelenodolsk, Respublika Tatarstan, Rossiya'')]) \<le> 1 \<and>
   [Some CENTER, Some CENTER] ! 0 = [Some CENTER, Some CENTER] ! (1::nat) \<and>
   load_cache loads_fixture GEOCACHE_FILE Map.empty = Inr Map.empty \<and>
   fst (generate_map py_int_fixture parse_fixture loads_fixture dumps_fixture flat_km
     lookup_centre iso_fixture two_rows ''2025-06-01'' ''2025-06-30'' None Map.empty 0) =
     Inr [with_coords (two_rows ! 0) (Some CENTER), with_coords (two_rows ! 1) (Some CENTER)] \<and>
   lat (with_coords (two_rows ! 0) (Some CENTER)) = lat (with_coords (two_rows ! 1) (Some CENTER)) \<and>
   lon (with_coords (two_rows ! 0) (Some CENTER)) = lon (with_coords (two_rows ! 1) (Some CENTER)) \<and>
   load_cache loads_fixture GEOCACHE_FILE [GEOCACHE_FILE \<mapsto> pickle_lenina_none]
     = Inr [''Lenina_5'' \<mapsto> None] \<and>
   calls_for ''Lenina_5''
     (snd (snd (snd (generate_map py_int_fixture parse_fixture loads_fixture dumps_fixture
        flat_km lookup_centre iso_fixture two_rows ''2025-06-01'' ''2025-06-30'' None
        [GEOCACHE_FILE \<mapsto> pickle_lenina_none] 0)))) = []"
proof -
  let ?r0 = "with_coords (two_rows ! 0) (Some CENTER)"
  let ?r1 = "with_coords (two_rows ! 1) (Some CENTER)"
  let ?cached = "generate_map py_int_fixture parse_fixture loads_fixture dumps_fixture
        flat_km lookup_centre iso_fixture two_rows ''2025-06-01'' ''2025-06-30'' None
        [GEOCACHE_FILE \<mapsto> pickle_lenina_none] (0::nat)"
  have same: "row_key (two_rows ! 0) = row_key (two_rows ! 1)"
    by (simp add: two_rows_def row_key_def)
  have len: "(0::nat) < length two_rows" "(1::nat) < length two_rows"
    by (simp_all add: two_rows_def)
  have load0: "load_cache loads_fixture GEOCACHE_FILE Map.empty = Inr Map.empty"
    by (simp add: load_cache_def)
  have load1: "load_cache loads_fixture GEOCACHE_FILE [GEOCACHE_FILE \<mapsto> pickle_lenina_none]
     = Inr [''Lenina_5'' \<mapsto> None]"
    by (simp add: load_cache_def loads_fixture_def pickle_lenina_none_def pickle_empty_def)
  have key: "row_key ?r0 = row_key ?r1"
    using same by (simp add: row_key_with_coords)
  have run1: "?cached = (fst ?cached, fst (snd ?cached), fst (snd (snd ?cached)),
      snd (snd (snd ?cached)))"
    by simp
  have mem: "?r0 \<in> set [?r0, ?r1]" "?r1 \<in> set [?r0, ?r1]" by simp_all
  have bound: "[''Lenina_5'' \<mapsto> None] ''Lenina_5'' \<noteq> (None :: coord option option)"
    by simp
  note batch = one_lookup_per_key [where gk = flat_km and f = lookup_centre
      and rows = two_rows and st = empty_state and k = "''Lenina_5''",
      THEN conjunct1, THEN mp, OF two_rows_run]
  from batch [THEN conjunct1]
  have once: "length (calls_for ''Lenina_5''
       [(''Lenina_5'', ''Lenina, 5, Zelenodolsk, Respublika Tatarstan, Rossiya'')]) \<le> 1"
    by (simp add: empty_state_def calls_for_def)
  have equal: "[Some CENTER, Some CENTER] ! 0 = [Some CENTER, Some CENTER] ! (1::nat)"
    by (rule batch [THEN conjunct2, THEN conjunct2, rule_format, OF refl len same])
  note fresh = one_lookup_per_key [where k = "''Lenina_5''" and loads = loads_fixture
      and files = Map.empty and m = Map.empty,
      THEN conjunct2, THEN mp, OF load0, THEN mp, OF two_rows_map]
  have coords: "lat ?r0 = lat ?r1 \<and> lon ?r0 = lon ?r1"
    by (rule fresh [THEN conjunct2, THEN conjunct2, rule_format, OF refl mem key])
  note cached = one_lookup_per_key [where k = "''Lenina_5''" and loads = loads_fixture
      and files = "[GEOCACHE_FILE \<mapsto> pickle_lenina_none]"
      and m = "[''Lenina_5'' \<mapsto> None]",
      THEN conjunct2, THEN mp, OF load1, THEN mp, OF run1]
  have none: "calls_for ''Lenina_5'' (snd (snd (snd ?cached))) = []"
    by (rule cached [THEN conjunct2, THEN conjunct1, THEN mp, OF bound])
  have rendered: "fst (generate_map py_int_fixture parse_fixture loads_fixture dumps_fixture
     flat_km lookup_centre iso_fixture two_rows ''2025-06-01'' ''2025-06-30'' None
     Map.empty 0) = Inr [?r0, ?r1]"
    using two_rows_map by simp
  show ?thesis
    apply (intro conjI)
             apply (rule two_rows_run)
            apply (rule same)
           apply (rule once)
          apply (rule equal)
         apply (rule load0)
        apply (rule rendered)
       apply (rule coords [THEN conjunct1])
      apply (rule coords [THEN conjunct2])
     apply (rule load1)
    apply (rule none)
    done
qed

text \<open>
  C3 as the specification states it fails: two rows whose streets differ only in a
  trailing space have one key once trimmed, yet the code gives them two keys, calls the
  lookup for each, and here gives them two different coordinates.
\<close>

theorem trimmed_key_two_lookups_counterexample:
  "spec_address_key (str_of (col_street (spaced_rows ! 0))) (str_of (col_house (spaced_rows ! 0)))
     = spec_address_key (str_of (col_street (spaced_rows ! 1)))
         (str_of (col_house (spaced_rows ! 1))) \<and>
   fst (geocode_rows flat_km lookup_moving spaced_rows empty_state) =
     Inr [Some CENTER, Some (fst CENTER, snd CENTER + 1 / 100)] \<and>
   calls (snd (geocode_rows flat_km lookup_moving spaced_rows empty_state)) =
     [(''Lenina _5'', ''Lenina , 5, Zelenodolsk, Respublika Tatarstan, Rossiya''),
      (''Lenina_5'', ''Lenina, 5, Zelenodolsk, Respublika Tatarstan, Rossiya'')] \<and>
   Some CENTER \<noteq> Some (fst CENTER, snd CENTER + 1 / 100)"
  by (simp add: spaced_rows_def spec_address_key_def trimmed_def str_of_def address_key_def
      address_of_def smart_geocode_def Let_def lookup_moving_def empty_state_def flat_km_def
      CENTER_def MAX_DIST_KM_def)

end
